theory Spec2Isabelle
  imports Complex_Main
begin

section \<open>IEEE 754 doubles, idealised\<close>

text \<open>
  The program computes with numpy float64 values. A value is a finite number, one of
  the two infinities, or NaN. Finite values are modelled by exact reals: rounding,
  overflow to an infinity and underflow to zero are not modelled, and zero has no
  sign (a zero divisor acts as +0). What IEEE 754 prescribes for NaN and for the
  infinities is modelled as it is: every comparison with NaN is false, NaN is
  absorbing in arithmetic, and the invalid operations (inf - inf, 0 * inf, 0 / 0,
  inf / inf, sqrt and log of a negative number, arccos outside [-1, 1], cos and sin of
  an infinity) give NaN.
\<close>

datatype float64 = Finite real | PosInf | NegInf | NaN

fun fl_isnan :: "float64 \<Rightarrow> bool" where
  "fl_isnan NaN = True"
| "fl_isnan _ = False"

fun fl_isfinite :: "float64 \<Rightarrow> bool" where
  "fl_isfinite (Finite _) = True"
| "fl_isfinite _ = False"

fun fl_neg :: "float64 \<Rightarrow> float64" where
  "fl_neg (Finite a) = Finite (- a)"
| "fl_neg PosInf = NegInf"
| "fl_neg NegInf = PosInf"
| "fl_neg NaN = NaN"

fun fl_add :: "float64 \<Rightarrow> float64 \<Rightarrow> float64" where
  "fl_add NaN _ = NaN"
| "fl_add _ NaN = NaN"
| "fl_add (Finite a) (Finite b) = Finite (a + b)"
| "fl_add PosInf NegInf = NaN"
| "fl_add NegInf PosInf = NaN"
| "fl_add PosInf _ = PosInf"
| "fl_add NegInf _ = NegInf"
| "fl_add (Finite _) PosInf = PosInf"
| "fl_add (Finite _) NegInf = NegInf"

definition fl_sub :: "float64 \<Rightarrow> float64 \<Rightarrow> float64" where
  "fl_sub a b = fl_add a (fl_neg b)"

text \<open>The sign of a non-NaN value: 1, 0 or -1.\<close>

fun fl_sgn :: "float64 \<Rightarrow> int" where
  "fl_sgn (Finite a) = (if a > 0 then 1 else if a < 0 then -1 else 0)"
| "fl_sgn PosInf = 1"
| "fl_sgn NegInf = -1"
| "fl_sgn NaN = 0"

definition signed_inf :: "int \<Rightarrow> float64" where
  "signed_inf s = (if s = 0 then NaN else if s > 0 then PosInf else NegInf)"

fun fl_mul :: "float64 \<Rightarrow> float64 \<Rightarrow> float64" where
  "fl_mul NaN _ = NaN"
| "fl_mul _ NaN = NaN"
| "fl_mul (Finite a) (Finite b) = Finite (a * b)"
| "fl_mul a b = signed_inf (fl_sgn a * fl_sgn b)"

fun fl_div :: "float64 \<Rightarrow> float64 \<Rightarrow> float64" where
  "fl_div NaN _ = NaN"
| "fl_div _ NaN = NaN"
| "fl_div (Finite a) (Finite b) =
     (if b = 0 then signed_inf (fl_sgn (Finite a)) else Finite (a / b))"
| "fl_div (Finite _) _ = Finite 0"
| "fl_div a (Finite b) = signed_inf (fl_sgn a * (if b < 0 then -1 else 1))"
| "fl_div _ _ = NaN"

fun fl_sqrt :: "float64 \<Rightarrow> float64" where
  "fl_sqrt (Finite a) = (if a < 0 then NaN else Finite (sqrt a))"
| "fl_sqrt PosInf = PosInf"
| "fl_sqrt _ = NaN"

fun fl_lt :: "float64 \<Rightarrow> float64 \<Rightarrow> bool" where
  "fl_lt NaN _ = False"
| "fl_lt _ NaN = False"
| "fl_lt (Finite a) (Finite b) = (a < b)"
| "fl_lt NegInf NegInf = False"
| "fl_lt NegInf _ = True"
| "fl_lt _ NegInf = False"
| "fl_lt PosInf _ = False"
| "fl_lt _ PosInf = True"

fun fl_le :: "float64 \<Rightarrow> float64 \<Rightarrow> bool" where
  "fl_le NaN _ = False"
| "fl_le _ NaN = False"
| "fl_le a b = (a = b \<or> fl_lt a b)"

definition fl_gt :: "float64 \<Rightarrow> float64 \<Rightarrow> bool" where
  "fl_gt a b = fl_lt b a"

definition fl_ge :: "float64 \<Rightarrow> float64 \<Rightarrow> bool" where
  "fl_ge a b = fl_le b a"

text \<open>\<^verbatim>\<open>np.sum\<close> and \<^verbatim>\<open>add.reduce\<close>: the sum of the entries, 0.0 for none.\<close>

definition fl_sum :: "float64 list \<Rightarrow> float64" where
  "fl_sum xs = foldl fl_add (Finite 0) xs"

section \<open>ERData: the loaded table and its sweep-level cleaning\<close>

text \<open>
  One row of the DataFrame. The columns \<^verbatim>\<open>spec_no\<close>, \<^verbatim>\<open>time\<close> and \<^verbatim>\<open>energy\<close> are named
  in the source; the column groups \<^verbatim>\<open>config.MAG_COLS\<close>, \<^verbatim>\<open>config.PHI_COLS\<close> and
  \<^verbatim>\<open>config.FLUX_COLS\<close> are each a list of float64 cells. The row index that
  \<^verbatim>\<open>reset_index(drop=True)\<close> renumbers is the position in the list.
\<close>

record row =
  spec_no :: int
  time :: string
  mag_cols :: "float64 list"
  phi_cols :: "float64 list"
  flux_cols :: "float64 list"
  energy :: float64

text \<open>\<^verbatim>\<open>np.linalg.norm(v)\<close> of one row: \<^verbatim>\<open>sqrt(add.reduce(v * v))\<close>.\<close>

definition linalg_norm :: "float64 list \<Rightarrow> float64" where
  "linalg_norm v = fl_sqrt (fl_sum (map (\<lambda>c. fl_mul c c) v))"

definition invalid_mag_mask :: "row \<Rightarrow> bool" where
  "invalid_mag_mask r =
     (let magnetic_field_magnitude = linalg_norm (mag_cols r)
      in fl_le magnetic_field_magnitude (Finite (1 / 10 ^ 9))
         \<or> fl_ge magnetic_field_magnitude (Finite 1000))"

definition invalid_time_mask :: "row \<Rightarrow> bool" where
  "invalid_time_mask r = (time r = ''1970-01-01T00:00:00'')"

definition invalid_rows_mask :: "row \<Rightarrow> bool" where
  "invalid_rows_mask r = (invalid_mag_mask r \<or> invalid_time_mask r)"

definition invalid_spec_nos :: "row list \<Rightarrow> int set" where
  "invalid_spec_nos d = set (map spec_no (filter invalid_rows_mask d))"

text \<open>
  \<^verbatim>\<open>ERData._clean_sweep_data\<close>. The attribute \<^verbatim>\<open>self.data\<close> is \<open>None\<close> or a table; the
  method returns at once on \<open>None\<close>, and rebuilds the table only when the set of
  invalid sweep numbers is not empty. The two log lines are not modelled.
\<close>

definition clean_sweep_data :: "row list option \<Rightarrow> row list option" where
  "clean_sweep_data data =
     (case data of
        None \<Rightarrow> None
      | Some d \<Rightarrow>
          (let inv = invalid_spec_nos d
           in if inv \<noteq> {}
              then Some (filter (\<lambda>r. spec_no r \<notin> inv) d)
              else Some d))"

text \<open>
  \<^verbatim>\<open>ERData._load_data\<close>: the outcome of \<^verbatim>\<open>pd.read_csv\<close> is the input (a table, or the
  exception it raised); every exception leaves \<^verbatim>\<open>self.data = None\<close>.
\<close>

datatype error =
    AssertionError string
  | RuntimeError string
  | ValueError string
  | IndexError
  | ZeroDivisionError
  | TypeError
  | FileNotFoundError
  | ParserError

definition load_data :: "error + row list \<Rightarrow> row list option" where
  "load_data parsed =
     (case parsed of
        Inl _ \<Rightarrow> None
      | Inr d \<Rightarrow> clean_sweep_data (Some d))"

section \<open>PitchAngle: look directions and pitch angles\<close>

text \<open>
  The constants of the module \<^verbatim>\<open>config\<close> that the code reads. The module is not part
  of the sources, so the constants are parameters: the number of channels, the number
  of rows of one sweep, and the floor of the incident reference flux.
\<close>

record config =
  CHANNELS :: nat
  SWEEP_ROWS :: nat
  EPS :: float64

fun fl_cos :: "float64 \<Rightarrow> float64" where
  "fl_cos (Finite a) = Finite (cos a)"
| "fl_cos _ = NaN"

fun fl_sin :: "float64 \<Rightarrow> float64" where
  "fl_sin (Finite a) = Finite (sin a)"
| "fl_sin _ = NaN"

fun fl_arccos :: "float64 \<Rightarrow> float64" where
  "fl_arccos (Finite a) = (if - 1 \<le> a \<and> a \<le> 1 then Finite (arccos a) else NaN)"
| "fl_arccos _ = NaN"

text \<open>\<^verbatim>\<open>np.clip(a, lo, hi)\<close> is \<^verbatim>\<open>minimum(maximum(a, lo), hi)\<close>; a NaN stays a NaN.\<close>

fun fl_clip :: "float64 \<Rightarrow> float64 \<Rightarrow> float64 \<Rightarrow> float64" where
  "fl_clip NaN lo hi = NaN"
| "fl_clip a lo hi = (if fl_lt a lo then lo else if fl_gt a hi then hi else a)"

definition deg2rad :: "float64 \<Rightarrow> float64" where
  "deg2rad a = fl_mul a (Finite (pi / 180))"

definition rad2deg :: "float64 \<Rightarrow> float64" where
  "rad2deg a = fl_mul a (Finite (180 / pi))"

text \<open>
  The attributes of a \<^verbatim>\<open>PitchAngle\<close> object. The arrays are \<open>None\<close> until
  \<^verbatim>\<open>_process_data\<close> has filled them.
\<close>

record PitchAngle =
  pa_er_data :: "row list option"
  pa_thetas :: "float64 list"
  cartesian_coords :: "float64 list list list option"
  pitch_angles :: "float64 list list option"
  unit_magnetic_field :: "float64 list list list option"
  valid_mask :: "bool list option"

text \<open>
  \<^verbatim>\<open>PitchAngle._get_cartesian_coords\<close>: \<open>phis\<close> has one row of azimuths (radians) per
  data row, \<open>thetas\<close> one polar angle (radians) per channel; the result holds the
  vector \<open>[X, Y, Z]\<close> of every row and channel. Channel \<open>c\<close> of a row pairs the row's
  \<open>c\<close>-th azimuth with the \<open>c\<close>-th polar angle (numpy broadcasts \<open>thetas\<close> along the
  rows, which needs as many azimuth columns as polar angles).
\<close>

definition get_cartesian_coords ::
  "float64 list list \<Rightarrow> float64 list \<Rightarrow> float64 list list list" where
  "get_cartesian_coords phis thetas =
     map (\<lambda>phi_row.
            map2 (\<lambda>p t. [fl_mul (fl_cos p) (fl_cos t),
                          fl_mul (fl_sin p) (fl_cos t),
                          fl_sin t])
              phi_row thetas)
       phis"

text \<open>\<^verbatim>\<open>np.einsum('ijk,ijk->ij', u, c)\<close> at one \<open>(i, j)\<close>: the sum over \<open>k\<close> of the products.\<close>

definition einsum_k :: "float64 list \<Rightarrow> float64 list \<Rightarrow> float64" where
  "einsum_k u c = fl_sum (map2 fl_mul u c)"

text \<open>One entry of the table that \<^verbatim>\<open>calculate_pitch_angles\<close> computes.\<close>

definition pitch_of :: "float64 list \<Rightarrow> float64 list \<Rightarrow> float64" where
  "pitch_of u c =
     (let dot_product = fl_neg (einsum_k u c);
          dot_product = fl_clip dot_product (Finite (- 1)) (Finite 1)
      in rad2deg (fl_arccos dot_product))"

text \<open>
  \<^verbatim>\<open>PitchAngle.calculate_pitch_angles\<close>: asserts that the data is loaded, then stores
  the table computed from \<^verbatim>\<open>self.unit_magnetic_field\<close> and \<^verbatim>\<open>self.cartesian_coords\<close>.
\<close>

definition calculate_pitch_angles :: "PitchAngle \<Rightarrow> error + PitchAngle" where
  "calculate_pitch_angles self =
     (case pa_er_data self of
        None \<Rightarrow> Inl (AssertionError ''Data not loaded. Please load the data first.'')
      | Some _ \<Rightarrow>
          (case (unit_magnetic_field self, cartesian_coords self) of
             (Some umf, Some coords) \<Rightarrow>
               Inr (self\<lparr>pitch_angles := Some (map2 (map2 pitch_of) umf coords)\<rparr>)
           | _ \<Rightarrow> Inl TypeError))"

text \<open>
  \<^verbatim>\<open>PitchAngle.__init__\<close> with \<^verbatim>\<open>_process_data\<close>. The values that \<^verbatim>\<open>np.loadtxt\<close> read
  from the theta file, one per line, are the argument \<open>thetas_deg\<close>. For a file of
  one value \<^verbatim>\<open>np.loadtxt\<close> returns a 0-d array, and \<^verbatim>\<open>len(self.thetas)\<close> raises
  TypeError on it: a one-entry list stands for that array.
\<close>

definition process_data :: "config \<Rightarrow> PitchAngle \<Rightarrow> error + PitchAngle" where
  "process_data cfg self =
     (case pa_er_data self of
        None \<Rightarrow> Inl (AssertionError ''Data not loaded. Please load the data first.'')
      | Some d \<Rightarrow>
          if length (pa_thetas self) = 1 then Inl TypeError
          else if length (pa_thetas self) \<noteq> CHANNELS cfg
          then Inl (AssertionError ''Theta values must match the number of channels.'')
          else
            (let phis = map (\<lambda>r. map deg2rad (phi_cols r)) d;
                 thetas = map deg2rad (pa_thetas self);
                 coords = get_cartesian_coords phis thetas;
                 magnetic_field = map mag_cols d;
                 unit_mf = map (\<lambda>v. map (\<lambda>b. fl_div b (linalg_norm v)) v) magnetic_field;
                 tiled = map (replicate (CHANNELS cfg)) unit_mf
             in calculate_pitch_angles
                  (self\<lparr>cartesian_coords := Some coords,
                         valid_mask := Some (replicate (length magnetic_field) True),
                         unit_magnetic_field := Some tiled\<rparr>)))"

definition PitchAngle_init ::
  "config \<Rightarrow> row list option \<Rightarrow> float64 list \<Rightarrow> error + PitchAngle" where
  "PitchAngle_init cfg data thetas_deg =
     process_data cfg
       \<lparr>pa_er_data = data, pa_thetas = thetas_deg, cartesian_coords = None,
        pitch_angles = None, unit_magnetic_field = None, valid_mask = None\<rparr>"

section \<open>LossConeFitter: normalised flux and the per-chunk fit\<close>

text \<open>
  What the fitter calls and the sources do not contain: the loss-cone model
  \<^verbatim>\<open>synth_losscone\<close> of the module \<^verbatim>\<open>model\<close>, and scipy's \<^verbatim>\<open>minimize\<close>,
  \<^verbatim>\<open>LatinHypercube(d=2, scramble=False).random\<close> and \<^verbatim>\<open>scale\<close>. They are parameters,
  assumed to return. \<^verbatim>\<open>minimize\<close> is always called with the Nelder-Mead method and
  the same options, so it takes the objective and the start point only. The sampler
  is constructed without a seed, so it starts from fresh entropy of the operating
  system, which scipy uses to shuffle the cells of each dimension also when
  \<^verbatim>\<open>scramble=False\<close>: the entropy is the first argument of \<open>LatinHypercube_random\<close>,
  the number of points the second.
\<close>

record OptimizeResult =
  res_success :: bool
  res_message :: string
  res_x :: "float64 \<times> float64"
  res_fun :: float64

record externals =
  synth_losscone ::
    "float64 list \<Rightarrow> float64 list list \<Rightarrow> float64 \<Rightarrow> float64 \<Rightarrow> float64 list list"
  minimize :: "(float64 \<times> float64 \<Rightarrow> float64) \<Rightarrow> float64 \<times> float64 \<Rightarrow> OptimizeResult"
  LatinHypercube_random :: "nat \<Rightarrow> nat \<Rightarrow> (float64 \<times> float64) list"
  qmc_scale ::
    "(float64 \<times> float64) list \<Rightarrow> float64 \<times> float64 \<Rightarrow> float64 \<times> float64
       \<Rightarrow> (float64 \<times> float64) list"

record LossConeFitter =
  er_data :: "row list option"
  thetas :: "float64 list"
  pitch_angle :: PitchAngle
  lhs :: "(float64 \<times> float64) list"

definition generate_latin_hypercube ::
  "externals \<Rightarrow> nat \<Rightarrow> (float64 \<times> float64) list" where
  "generate_latin_hypercube ext entropy =
     (let lower = (Finite (- 1000), Finite (1 / 10));
          upper = (Finite 1000, Finite 1);
          sample = LatinHypercube_random ext entropy 400
      in qmc_scale ext sample lower upper)"

definition LossConeFitter_init ::
  "externals \<Rightarrow> nat \<Rightarrow> config \<Rightarrow> row list option \<Rightarrow> float64 list
     \<Rightarrow> error + LossConeFitter" where
  "LossConeFitter_init ext entropy cfg data thetas_deg =
     (case PitchAngle_init cfg data thetas_deg of
        Inl e \<Rightarrow> Inl e
      | Inr pa \<Rightarrow>
          Inr \<lparr>er_data = data, thetas = thetas_deg, pitch_angle = pa,
               lhs = generate_latin_hypercube ext entropy\<rparr>)"

text \<open>
  Indexing a sequence by a Python int: a negative index counts from the end, an
  index outside \<open>[-n, n)\<close> raises IndexError.
\<close>

definition py_index :: "'a list \<Rightarrow> int \<Rightarrow> error + 'a" where
  "py_index xs i =
     (let n = int (length xs)
      in if 0 \<le> i \<and> i < n then Inr (xs ! nat i)
         else if - n \<le> i \<and> i < 0 then Inr (xs ! nat (n + i))
         else Inl IndexError)"

text \<open>A slice \<^verbatim>\<open>xs[s:e]\<close>: both bounds are clamped, a negative one counts from the end.\<close>

definition slice_bound :: "nat \<Rightarrow> int \<Rightarrow> nat" where
  "slice_bound n i = (if i < 0 then nat (max 0 (int n + i)) else min (nat i) n)"

definition py_slice :: "'a list \<Rightarrow> int \<Rightarrow> int \<Rightarrow> 'a list" where
  "py_slice xs s e = drop (slice_bound (length xs) s) (take (slice_bound (length xs) e) xs)"

text \<open>
  Python's builtin \<^verbatim>\<open>max(a, b)\<close> keeps \<open>a\<close> unless \<open>b > a\<close>: with a NaN second
  argument it returns the first.
\<close>

definition py_max :: "float64 \<Rightarrow> float64 \<Rightarrow> float64" where
  "py_max a b = (if fl_gt b a then b else a)"

definition np_mean :: "float64 list \<Rightarrow> float64" where
  "np_mean xs = fl_div (fl_sum xs) (Finite (real (length xs)))"

text \<open>
  \<^verbatim>\<open>a[mask]\<close> with a boolean mask: the entries where the mask is true; IndexError when
  the mask is not as long as the array.
\<close>

definition bool_index :: "'a list \<Rightarrow> bool list \<Rightarrow> error + 'a list" where
  "bool_index xs msk =
     (if length msk \<noteq> length xs then Inl IndexError
      else Inr (map fst (filter snd (zip xs msk))))"

text \<open>\<^verbatim>\<open>LossConeFitter._get_normalized_flux\<close>.\<close>

definition get_normalized_flux ::
  "config \<Rightarrow> LossConeFitter \<Rightarrow> int \<Rightarrow> int \<Rightarrow> error + float64 list" where
  "get_normalized_flux cfg self energy_bin measurement_chunk =
     (case er_data self of
        None \<Rightarrow> Inl (AssertionError ''Data not loaded. Please load the data first.'')
      | Some d \<Rightarrow>
          (let index = measurement_chunk * int (SWEEP_ROWS cfg) + energy_bin
           in if index \<ge> int (length d) then Inr (replicate (CHANNELS cfg) NaN)
              else
                (case py_index (map flux_cols d) index of
                   Inl e \<Rightarrow> Inl e
                 | Inr electron_flux \<Rightarrow>
                     (case pitch_angles (pitch_angle self) of
                        None \<Rightarrow> Inr (replicate (CHANNELS cfg) NaN)
                      | Some pa \<Rightarrow>
                          (case py_index pa index of
                             Inl e \<Rightarrow> Inl e
                           | Inr angles \<Rightarrow>
                               (let incident_mask = map (\<lambda>a. fl_lt a (Finite 90)) angles
                                in if \<not> list_ex id incident_mask
                                   then Inr (replicate (length electron_flux) NaN)
                                   else
                                     (case bool_index electron_flux incident_mask of
                                        Inl e \<Rightarrow> Inl e
                                      | Inr incident \<Rightarrow>
                                          (let incident_flux = py_max (EPS cfg) (np_mean incident)
                                           in Inr (map (\<lambda>x. fl_div x incident_flux)
                                                     electron_flux)))))))))"

text \<open>Running a list of fallible computations in order, stopping at the first error.\<close>

fun collect :: "(error + 'a) list \<Rightarrow> error + 'a list" where
  "collect [] = Inr []"
| "collect (x # xs) =
     (case x of
        Inl e \<Rightarrow> Inl e
      | Inr v \<Rightarrow> (case collect xs of Inl e \<Rightarrow> Inl e | Inr vs \<Rightarrow> Inr (v # vs)))"

text \<open>\<^verbatim>\<open>np.vstack\<close>: at least one row, and all rows of one length.\<close>

definition vstack :: "float64 list list \<Rightarrow> error + float64 list list" where
  "vstack rows =
     (case rows of
        [] \<Rightarrow> Inl (ValueError ''need at least one array to concatenate'')
      | r # rs \<Rightarrow>
          if list_all (\<lambda>q. length q = length r) rs then Inr rows
          else Inl (ValueError ''all the input array dimensions must match''))"

text \<open>\<^verbatim>\<open>LossConeFitter.build_norm2d\<close>.\<close>

definition build_norm2d ::
  "config \<Rightarrow> LossConeFitter \<Rightarrow> int \<Rightarrow> error + float64 list list" where
  "build_norm2d cfg self measurement_chunk =
     (case er_data self of
        None \<Rightarrow> Inl (AssertionError ''Data not loaded. Please load the data first.'')
      | Some _ \<Rightarrow>
          (case collect (map (\<lambda>energy_bin.
                                get_normalized_flux cfg self (int energy_bin) measurement_chunk)
                           [0 ..< SWEEP_ROWS cfg]) of
             Inl e \<Rightarrow> Inl e
           | Inr rows \<Rightarrow> vstack rows))"

fun fl_log :: "float64 \<Rightarrow> float64" where
  "fl_log (Finite a) = (if a < 0 then NaN else if a = 0 then NegInf else Finite (ln a))"
| "fl_log PosInf = PosInf"
| "fl_log _ = NaN"

text \<open>
  The objective \<^verbatim>\<open>chi2\<close>, nested in \<^verbatim>\<open>_fit_surface_potential\<close>; the variables it
  captures (\<open>energies\<close>, \<open>pitches\<close>, \<open>norm2d\<close>) are arguments. The entrywise
  difference pairs the entries of \<open>norm2d\<close> and of the model's matrix position by
  position, which is what numpy does when the two have one shape.
\<close>

definition chi2 ::
  "externals \<Rightarrow> float64 list \<Rightarrow> float64 list list \<Rightarrow> float64 list list
     \<Rightarrow> float64 \<times> float64 \<Rightarrow> float64" where
  "chi2 ext energies pitches norm2d params =
     (let delta_U = fst params; bs_over_bm = snd params;
          eps = Finite (1 / 10 ^ 6);
          model = synth_losscone ext energies pitches delta_U bs_over_bm
      in if \<not> list_all fl_isfinite (concat model)
            \<or> list_all (\<lambda>m. fl_le m (Finite 0)) (concat model)
         then Finite (10 ^ 30)
         else
           (let diff = map2 (map2 (\<lambda>ob m. fl_sub (fl_log (fl_add ob eps))
                                                (fl_log (fl_add m eps))))
                         norm2d model
            in fl_sum (map (\<lambda>df. fl_mul df df) (concat diff))))"

text \<open>
  \<^verbatim>\<open>np.argmin\<close>: the first index of a NaN when there is one, else the first index of
  the least entry; ValueError on an empty array.
\<close>

fun argmin_loop :: "float64 list \<Rightarrow> nat \<Rightarrow> float64 \<Rightarrow> nat \<Rightarrow> nat" where
  "argmin_loop [] i mp best = best"
| "argmin_loop (a # as) i mp best =
     (if fl_isnan mp then best
      else if \<not> fl_ge a mp then argmin_loop as (Suc i) a i
      else argmin_loop as (Suc i) mp best)"

definition np_argmin :: "float64 list \<Rightarrow> error + nat" where
  "np_argmin xs =
     (case xs of
        [] \<Rightarrow> Inl (ValueError ''attempt to get argmin of an empty sequence'')
      | a # as \<Rightarrow> Inr (argmin_loop as 1 a 0))"

text \<open>\<^verbatim>\<open>LossConeFitter._fit_surface_potential\<close>.\<close>

definition fit_chunk ::
  "externals \<Rightarrow> config \<Rightarrow> LossConeFitter \<Rightarrow> int
     \<Rightarrow> error + (float64 \<times> float64 \<times> float64)" where
  "fit_chunk ext cfg self measurement_chunk =
     (case er_data self of
        None \<Rightarrow> Inl (AssertionError ''Data not loaded.'')
      | Some d \<Rightarrow>
          (case build_norm2d cfg self measurement_chunk of
             Inl e \<Rightarrow> Inl e
           | Inr norm2d \<Rightarrow>
               if list_all fl_isnan (concat norm2d) then Inr (NaN, NaN, NaN)
               else
                 (let s = measurement_chunk * int (SWEEP_ROWS cfg);
                      e = (measurement_chunk + 1) * int (SWEEP_ROWS cfg);
                      max_rows = int (length d)
                  in if s \<ge> max_rows then Inr (NaN, NaN, NaN)
                     else
                       (let e = min e max_rows;
                            energies = py_slice (map energy d) s e
                        in case pitch_angles (pitch_angle self) of
                             None \<Rightarrow> Inr (NaN, NaN, NaN)
                           | Some pa \<Rightarrow>
                               if s \<ge> int (length pa) then Inr (NaN, NaN, NaN)
                               else
                                 (let pitches = py_slice pa s e;
                                      actual_rows = e - s;
                                      norm2d = (if int (length norm2d) > actual_rows
                                                then py_slice norm2d 0 actual_rows
                                                else norm2d);
                                      objective = chi2 ext energies pitches norm2d
                                  in if lhs self = []
                                     then Inl (ValueError ''Cannot apply_along_axis'')
                                     else
                                       (case np_argmin (map objective (lhs self)) of
                                          Inl er \<Rightarrow> Inl er
                                        | Inr best_idx \<Rightarrow>
                                            (let x0 = lhs self ! best_idx;
                                                 result = minimize ext objective x0
                                             in if \<not> res_success result
                                                then Inl (RuntimeError
                                                       (''Optimisation failed: ''
                                                          @ res_message result))
                                                else Inr (fst (res_x result),
                                                          snd (res_x result),
                                                          res_fun result))))))))"

text \<open>
  \<^verbatim>\<open>LossConeFitter.fit_surface_potential\<close>: the table starts as \<^verbatim>\<open>np.zeros((n_chunks, 4))\<close>
  and the loop overwrites row \<open>i\<close> after the fit of chunk \<open>i\<close>; an exception of a
  chunk's fit leaves the loop and the function. \<^verbatim>\<open>//\<close> raises ZeroDivisionError on a
  zero \<^verbatim>\<open>SWEEP_ROWS\<close>.
\<close>

fun fit_loop ::
  "externals \<Rightarrow> config \<Rightarrow> LossConeFitter \<Rightarrow> nat list \<Rightarrow> float64 list list
     \<Rightarrow> error + float64 list list" where
  "fit_loop ext cfg self [] results = Inr results"
| "fit_loop ext cfg self (i # rest) results =
     (case fit_chunk ext cfg self (int i) of
        Inl e \<Rightarrow> Inl e
      | Inr (delta_U, bs_over_bm, chi2v) \<Rightarrow>
          fit_loop ext cfg self rest
            (results[i := [delta_U, bs_over_bm, chi2v, Finite (real i)]]))"

definition fit_surface_potential ::
  "externals \<Rightarrow> config \<Rightarrow> LossConeFitter \<Rightarrow> error + float64 list list" where
  "fit_surface_potential ext cfg self =
     (case er_data self of
        None \<Rightarrow> Inl (AssertionError ''Data not loaded.'')
      | Some d \<Rightarrow>
          if SWEEP_ROWS cfg = 0 then Inl ZeroDivisionError
          else
            (let n_chunks = length d div SWEEP_ROWS cfg;
                 results = replicate n_chunks (replicate 4 (Finite 0))
             in fit_loop ext cfg self [0 ..< n_chunks] results))"

section \<open>Example inputs\<close>

text \<open>
  Concrete inputs on which the theorems below are instantiated: two channels, sweeps
  of one row, a table of two rows (the first with an incident channel, the second
  with none), and stand-ins for the external functions: a loss-cone model that
  predicts the flux 1 everywhere, a sample of two points (the centres of a 2 x 2
  grid, paired according to the entropy) scaled into the parameter box, and a local
  minimiser that returns its start point and reports success or failure as told.
\<close>

definition ex_cfg :: config where
  "ex_cfg = \<lparr>CHANNELS = 2, SWEEP_ROWS = 1, EPS = Finite (1 / 1000)\<rparr>"

definition ex_row :: "int \<Rightarrow> float64 list \<Rightarrow> float64 list \<Rightarrow> row" where
  "ex_row n b fl =
     \<lparr>spec_no = n, time = ''1998-03-01T00:00:00'', mag_cols = b,
      phi_cols = [Finite 0, Finite 180], flux_cols = fl, energy = Finite 10\<rparr>"

definition ex_data :: "row list" where
  "ex_data = [ex_row 1 [Finite (- 50), Finite 0, Finite 0] [Finite 4, Finite 4],
              ex_row 2 [Finite 0, Finite 0, Finite 50] [Finite 4, Finite 4]]"

definition ex_ext :: "bool \<Rightarrow> externals" where
  "ex_ext ok =
     \<lparr>synth_losscone = (\<lambda>energies pitches delta_U bs_over_bm. map (map (\<lambda>_. Finite 1)) pitches),
      minimize = (\<lambda>objective x0.
         \<lparr>res_success = ok,
          res_message = (if ok then ''Optimization terminated successfully.''
                         else ''Maximum number of iterations has been exceeded.''),
          res_x = x0, res_fun = objective x0\<rparr>),
      LatinHypercube_random = (\<lambda>entropy n.
         if even entropy
         then [(Finite (1 / 4), Finite (1 / 4)), (Finite (3 / 4), Finite (3 / 4))]
         else [(Finite (1 / 4), Finite (3 / 4)), (Finite (3 / 4), Finite (1 / 4))]),
      qmc_scale = (\<lambda>sample lower upper.
         map (\<lambda>(u, v). (fl_add (fl_mul u (fl_sub (fst upper) (fst lower))) (fst lower),
                        fl_add (fl_mul v (fl_sub (snd upper) (snd lower))) (snd lower)))
           sample)\<rparr>"

definition ex_pitch :: "row list \<Rightarrow> float64 list list list \<Rightarrow> float64 list list \<Rightarrow> PitchAngle" where
  "ex_pitch d umf tbl =
     \<lparr>pa_er_data = Some d, pa_thetas = [Finite 0, Finite 0],
      cartesian_coords = Some (map (\<lambda>_. [[Finite 1, Finite 0, Finite 0],
                                          [Finite (- 1), Finite 0, Finite 0]]) d),
      pitch_angles = Some tbl,
      unit_magnetic_field = Some umf,
      valid_mask = Some (map (\<lambda>_. True) d)\<rparr>"

definition ex_fitter :: "row list \<Rightarrow> float64 list list list \<Rightarrow> float64 list list \<Rightarrow> LossConeFitter" where
  "ex_fitter d umf tbl =
     \<lparr>er_data = Some d, thetas = [Finite 0, Finite 0], pitch_angle = ex_pitch d umf tbl,
      lhs = [(Finite (- 500), Finite (13 / 40)), (Finite 500, Finite (31 / 40))]\<rparr>"

definition ex_umf :: "float64 list list list" where
  "ex_umf = [[[Finite (- 1), Finite 0, Finite 0], [Finite (- 1), Finite 0, Finite 0]],
             [[Finite 0, Finite 0, Finite 1], [Finite 0, Finite 0, Finite 1]]]"

definition ex_tbl :: "float64 list list" where
  "ex_tbl = [[Finite 0, Finite 180], [Finite 90, Finite 90]]"

definition ex_nan_data :: "row list" where
  "ex_nan_data = [ex_row 1 [Finite (- 50), Finite 0, Finite 0] [NaN, NaN]]"

text \<open>
  The external functions once more, with a local minimiser that reports success at the
  point (2000, 5): \<^verbatim>\<open>minimize\<close> is called without bounds, so nothing in the call keeps
  its result inside the box of the global scan.
\<close>

definition ex_ext_far :: externals where
  "ex_ext_far =
     (ex_ext True)\<lparr>minimize := (\<lambda>objective x0.
         \<lparr>res_success = True,
          res_message = ''Optimization terminated successfully.'',
          res_x = (Finite 2000, Finite 5),
          res_fun = objective (Finite 2000, Finite 5)\<rparr>)\<rparr>"

text \<open>
  The fitter that the constructor builds from the example inputs when the sampler
  starts from an odd entropy: the same table, the other pairing of the two sample
  points.
\<close>

definition ex_fitter_odd :: LossConeFitter where
  "ex_fitter_odd =
     (ex_fitter ex_data ex_umf ex_tbl)
       \<lparr>lhs := [(Finite (- 500), Finite (31 / 40)), (Finite 500, Finite (13 / 40))]\<rparr>"

text \<open>The example externals with a sampler that returns no point.\<close>

definition ex_ext_resample :: externals where
  "ex_ext_resample = (ex_ext True)\<lparr>LatinHypercube_random := (\<lambda>entropy n. [])\<rparr>"

text \<open>A float64 that is NaN or not below zero.\<close>

definition nonneg_or_nan :: "float64 \<Rightarrow> bool" where
  "nonneg_or_nan a = (a = NaN \<or> fl_le (Finite 0) a)"

section \<open>Properties of the cleaning\<close>

lemma fl_lt_irrefl: "\<not> fl_lt a a"
  by (cases a) simp_all

lemma fl_le_iff: "fl_le a b \<longleftrightarrow> a \<noteq> NaN \<and> b \<noteq> NaN \<and> (a = b \<or> fl_lt a b)"
  by (cases a; cases b) simp_all

lemma fl_not_le_not_ge:
  "m \<noteq> NaN \<Longrightarrow> lo \<noteq> NaN \<Longrightarrow> hi \<noteq> NaN \<Longrightarrow>
   \<not> fl_le m lo \<Longrightarrow> \<not> fl_ge m hi \<Longrightarrow> fl_lt lo m \<and> fl_lt m hi"
  by (cases m; cases lo; cases hi) (auto simp: fl_ge_def)

lemma in_invalid_spec_nos:
  "n \<in> invalid_spec_nos d \<longleftrightarrow> (\<exists>q \<in> set d. invalid_rows_mask q \<and> spec_no q = n)"
  by (force simp: invalid_spec_nos_def)

lemma retained_subset:
  "clean_sweep_data (Some d) = Some d' \<Longrightarrow> set d' \<subseteq> set d"
  by (auto simp: clean_sweep_data_def Let_def split: if_splits)

lemma retained_not_in_invalid_sweep:
  assumes "clean_sweep_data (Some d) = Some d'" and "r \<in> set d'"
  shows "spec_no r \<notin> invalid_spec_nos d"
  using assms by (auto simp: clean_sweep_data_def Let_def split: if_splits)

lemma retained_not_flagged:
  assumes "clean_sweep_data (Some d) = Some d'" and "r \<in> set d'"
  shows "\<not> invalid_rows_mask r"
proof
  assume bad: "invalid_rows_mask r"
  from assms have "r \<in> set d" using retained_subset by blast
  with bad have "spec_no r \<in> invalid_spec_nos d"
    by (auto simp: in_invalid_spec_nos)
  with retained_not_in_invalid_sweep [OF assms] show False by simp
qed

text \<open>
  What the cleaning does guarantee for every retained row: it is a row of the input,
  its timestamp is not the epoch sentinel, no flagged row of the input has its
  \<^verbatim>\<open>spec_no\<close>, and its field magnitude is neither \<open>\<le> 1e-9\<close> nor \<open>\<ge> 1000\<close>; the
  magnitude lies strictly inside the interval whenever it is not NaN.
\<close>

lemma clean_retained_rows:
  assumes "clean_sweep_data (Some d) = Some d'" and "r \<in> set d'"
  shows "r \<in> set d"
    and "time r \<noteq> ''1970-01-01T00:00:00''"
    and "\<forall>q \<in> set d. invalid_rows_mask q \<longrightarrow> spec_no q \<noteq> spec_no r"
    and "linalg_norm (mag_cols r) \<noteq> NaN \<Longrightarrow>
           fl_lt (Finite (1 / 10 ^ 9)) (linalg_norm (mag_cols r))
           \<and> fl_lt (linalg_norm (mag_cols r)) (Finite 1000)"
proof -
  show "r \<in> set d" using assms retained_subset by blast
  have nf: "\<not> invalid_rows_mask r" by (rule retained_not_flagged [OF assms])
  then show "time r \<noteq> ''1970-01-01T00:00:00''"
    by (simp add: invalid_rows_mask_def invalid_time_mask_def)
  have "spec_no r \<notin> invalid_spec_nos d" by (rule retained_not_in_invalid_sweep [OF assms])
  then show "\<forall>q \<in> set d. invalid_rows_mask q \<longrightarrow> spec_no q \<noteq> spec_no r"
    by (auto simp: in_invalid_spec_nos)
  assume "linalg_norm (mag_cols r) \<noteq> NaN"
  moreover from nf have "\<not> fl_le (linalg_norm (mag_cols r)) (Finite (1 / 10 ^ 9))"
    and "\<not> fl_ge (linalg_norm (mag_cols r)) (Finite 1000)"
    by (simp_all add: invalid_rows_mask_def invalid_mag_mask_def Let_def)
  ultimately show "fl_lt (Finite (1 / 10 ^ 9)) (linalg_norm (mag_cols r))
      \<and> fl_lt (linalg_norm (mag_cols r)) (Finite 1000)"
    by (intro fl_not_le_not_ge) simp_all
qed

lemma clean_some: "\<exists>d'. clean_sweep_data (Some d) = Some d'"
  by (simp add: clean_sweep_data_def Let_def)

lemma clean_fixpoint:
  assumes "clean_sweep_data (Some d) = Some d'"
  shows "filter invalid_rows_mask d' = []" and "invalid_spec_nos d' = {}"
    and "clean_sweep_data (Some d') = Some d'"
proof -
  show f: "filter invalid_rows_mask d' = []"
    using retained_not_flagged [OF assms] by (auto simp: filter_empty_conv)
  then show i: "invalid_spec_nos d' = {}" by (simp add: invalid_spec_nos_def)
  then show "clean_sweep_data (Some d') = Some d'" by (simp add: clean_sweep_data_def)
qed

lemma norm_invalid_example: "linalg_norm [Finite 10000, Finite 0, Finite 0] = Finite 10000"
  by (simp add: linalg_norm_def fl_sum_def)

lemma norm_valid_example: "linalg_norm [Finite 30, Finite 40, Finite 0] = Finite 50"
  by (simp add: linalg_norm_def fl_sum_def)

text \<open>
  Claim C1. After cleaning, every retained row should have a field magnitude strictly
  inside (1e-9, 1000), a timestamp other than the epoch sentinel, and a \<^verbatim>\<open>spec_no\<close>
  that no flagged row has. The timestamp and the whole-sweep parts hold
  (\<open>clean_retained_rows\<close>); the magnitude part does not. A row whose field has a NaN
  component has the magnitude NaN, both comparisons of the mask are false on it, and
  the row is kept: the table below is returned unchanged, and the magnitude of its only
  row is NaN, which is neither above 1e-9 nor below 1000.
\<close>

theorem clean_keeps_nan_field:
  "clean_sweep_data (Some
     [\<lparr>spec_no = 1, time = ''1998-03-01T00:00:00'', mag_cols = [NaN, Finite 0, Finite 0],
       phi_cols = [], flux_cols = [], energy = Finite 1\<rparr>])
   = Some [\<lparr>spec_no = 1, time = ''1998-03-01T00:00:00'', mag_cols = [NaN, Finite 0, Finite 0],
       phi_cols = [], flux_cols = [], energy = Finite 1\<rparr>]
   \<and> linalg_norm [NaN, Finite 0, Finite 0] = NaN
   \<and> \<not> fl_lt (Finite (1 / 10 ^ 9)) (linalg_norm [NaN, Finite 0, Finite 0])
   \<and> \<not> fl_lt (linalg_norm [NaN, Finite 0, Finite 0]) (Finite 1000)"
  by (simp add: clean_sweep_data_def invalid_spec_nos_def invalid_rows_mask_def
      invalid_mag_mask_def invalid_time_mask_def linalg_norm_def fl_sum_def fl_ge_def Let_def)

text \<open>
  Claim C10. The cleaning is idempotent: cleaning a cleaned table returns it unchanged,
  because the cleaned table has no flagged row, so that its set of invalid sweep
  numbers is empty. (An unloaded table, \<open>None\<close>, stays \<open>None\<close>.)
\<close>

theorem clean_sweep_data_idempotent:
  "clean_sweep_data (clean_sweep_data data) = clean_sweep_data data
   \<and> (case clean_sweep_data data of
         None \<Rightarrow> data = None
       | Some d' \<Rightarrow> invalid_spec_nos d' = {} \<and> filter invalid_rows_mask d' = [])"
proof (cases data)
  case None
  then show ?thesis by (simp add: clean_sweep_data_def)
next
  case (Some d)
  from clean_some obtain d' where d': "clean_sweep_data (Some d) = Some d'" by blast
  from clean_fixpoint [OF d'] Some d' show ?thesis by simp
qed

text \<open>
  The theorem at a table of three rows: sweep 7 has one row of magnitude 1e4 and one
  valid row, sweep 8 one valid row. Both rows of sweep 7 go, and a second cleaning
  changes nothing.
\<close>

theorem clean_sweep_data_idempotent_witness:
  "clean_sweep_data (clean_sweep_data (Some
     [\<lparr>spec_no = 7, time = ''1998-03-01T00:00:00'', mag_cols = [Finite 10000, Finite 0, Finite 0],
       phi_cols = [], flux_cols = [], energy = Finite 1\<rparr>,
      \<lparr>spec_no = 7, time = ''1998-03-01T00:00:01'', mag_cols = [Finite 30, Finite 40, Finite 0],
       phi_cols = [], flux_cols = [], energy = Finite 2\<rparr>,
      \<lparr>spec_no = 8, time = ''1998-03-01T00:00:02'', mag_cols = [Finite 30, Finite 40, Finite 0],
       phi_cols = [], flux_cols = [], energy = Finite 3\<rparr>]))
   = Some [\<lparr>spec_no = 8, time = ''1998-03-01T00:00:02'', mag_cols = [Finite 30, Finite 40, Finite 0],
       phi_cols = [], flux_cols = [], energy = Finite 3\<rparr>]"
  using clean_sweep_data_idempotent [of "Some
     [\<lparr>spec_no = 7, time = ''1998-03-01T00:00:00'', mag_cols = [Finite 10000, Finite 0, Finite 0],
       phi_cols = [], flux_cols = [], energy = Finite 1\<rparr>,
      \<lparr>spec_no = 7, time = ''1998-03-01T00:00:01'', mag_cols = [Finite 30, Finite 40, Finite 0],
       phi_cols = [], flux_cols = [], energy = Finite 2\<rparr>,
      \<lparr>spec_no = 8, time = ''1998-03-01T00:00:02'', mag_cols = [Finite 30, Finite 40, Finite 0],
       phi_cols = [], flux_cols = [], energy = Finite 3\<rparr>]"]
  by (simp add: clean_sweep_data_def invalid_spec_nos_def invalid_rows_mask_def
      invalid_mag_mask_def invalid_time_mask_def norm_invalid_example norm_valid_example
      fl_ge_def Let_def)

section \<open>Properties of the pitch angles\<close>

lemma PitchAngle_init_table:
  assumes "PitchAngle_init cfg (Some d) thetas_deg = Inr P"
  shows "length thetas_deg = CHANNELS cfg"
    and "\<exists>tbl. pitch_angles P = Some tbl \<and> length tbl = length d \<and>
           (\<forall>i < length d. tbl ! i =
              map2 pitch_of
                (replicate (CHANNELS cfg)
                   (map (\<lambda>b. fl_div b (linalg_norm (mag_cols (d ! i)))) (mag_cols (d ! i))))
                (map2 (\<lambda>p t. [fl_mul (fl_cos p) (fl_cos t),
                               fl_mul (fl_sin p) (fl_cos t), fl_sin t])
                   (map deg2rad (phi_cols (d ! i))) (map deg2rad thetas_deg)))"
proof -
  show len: "length thetas_deg = CHANNELS cfg"
    using assms by (auto simp: PitchAngle_init_def process_data_def split: if_splits)
  define tiled where "tiled = map (replicate (CHANNELS cfg))
      (map (\<lambda>v. map (\<lambda>b. fl_div b (linalg_norm v)) v) (map mag_cols d))"
  define coords where "coords = get_cartesian_coords (map (\<lambda>r. map deg2rad (phi_cols r)) d)
      (map deg2rad thetas_deg)"
  have P: "pitch_angles P = Some (map2 (map2 pitch_of) tiled coords)"
    using assms len
    by (auto simp: PitchAngle_init_def process_data_def calculate_pitch_angles_def Let_def
        tiled_def coords_def o_def split: if_splits)
  have l1: "length tiled = length d" and l2: "length coords = length d"
    by (simp_all add: tiled_def coords_def get_cartesian_coords_def)
  have "map2 (map2 pitch_of) tiled coords ! i =
              map2 pitch_of
                (replicate (CHANNELS cfg)
                   (map (\<lambda>b. fl_div b (linalg_norm (mag_cols (d ! i)))) (mag_cols (d ! i))))
                (map2 (\<lambda>p t. [fl_mul (fl_cos p) (fl_cos t),
                               fl_mul (fl_sin p) (fl_cos t), fl_sin t])
                   (map deg2rad (phi_cols (d ! i))) (map deg2rad thetas_deg))"
    if "i < length d" for i
  proof -
    have "map2 (map2 pitch_of) tiled coords ! i = map2 pitch_of (tiled ! i) (coords ! i)"
      using that l1 l2 by simp
    also have "tiled ! i = replicate (CHANNELS cfg)
        (map (\<lambda>b. fl_div b (linalg_norm (mag_cols (d ! i)))) (mag_cols (d ! i)))"
      using that by (simp add: tiled_def)
    also have "coords ! i = map2 (\<lambda>p t. [fl_mul (fl_cos p) (fl_cos t),
                               fl_mul (fl_sin p) (fl_cos t), fl_sin t])
                   (map deg2rad (phi_cols (d ! i))) (map deg2rad thetas_deg)"
      using that by (simp add: coords_def get_cartesian_coords_def)
    finally show ?thesis .
  qed
  with P l1 l2 show "\<exists>tbl. pitch_angles P = Some tbl \<and> length tbl = length d \<and>
           (\<forall>i < length d. tbl ! i =
              map2 pitch_of
                (replicate (CHANNELS cfg)
                   (map (\<lambda>b. fl_div b (linalg_norm (mag_cols (d ! i)))) (mag_cols (d ! i))))
                (map2 (\<lambda>p t. [fl_mul (fl_cos p) (fl_cos t),
                               fl_mul (fl_sin p) (fl_cos t), fl_sin t])
                   (map deg2rad (phi_cols (d ! i))) (map deg2rad thetas_deg)))"
    by simp
qed

lemma clip_range:
  assumes "a \<noteq> NaN"
  shows "\<exists>y. fl_clip a (Finite (- 1)) (Finite 1) = Finite y \<and> - 1 \<le> y \<and> y \<le> 1"
  using assms by (cases a) (auto simp: fl_gt_def)

lemma rad2deg_arccos_range:
  assumes "- 1 \<le> y" and "y \<le> 1"
  shows "\<exists>a. rad2deg (fl_arccos (Finite y)) = Finite a \<and> 0 \<le> a \<and> a \<le> 180"
proof -
  have "0 \<le> arccos y" and "arccos y \<le> pi"
    using assms by (simp_all add: arccos_lbound arccos_ubound)
  then have "0 \<le> arccos y * (180 / pi)" and "arccos y * (180 / pi) \<le> 180"
    by (simp_all add: field_simps)
  with assms show ?thesis by (simp add: rad2deg_def)
qed

lemma fl_neg_nan: "fl_neg a = NaN \<longleftrightarrow> a = NaN"
  by (cases a) simp_all

lemma pitch_of_nan: "einsum_k u c = NaN \<Longrightarrow> pitch_of u c = NaN"
  by (simp add: pitch_of_def rad2deg_def)

lemma pitch_of_range:
  assumes "einsum_k u c \<noteq> NaN"
  shows "\<exists>y a. fl_clip (fl_neg (einsum_k u c)) (Finite (- 1)) (Finite 1) = Finite y
               \<and> - 1 \<le> y \<and> y \<le> 1 \<and> pitch_of u c = Finite a \<and> 0 \<le> a \<and> a \<le> 180"
proof -
  from assms have "fl_neg (einsum_k u c) \<noteq> NaN" by (simp add: fl_neg_nan)
  from clip_range [OF this] obtain y
    where y: "fl_clip (fl_neg (einsum_k u c)) (Finite (- 1)) (Finite 1) = Finite y"
      "- 1 \<le> y" "y \<le> 1" by blast
  from rad2deg_arccos_range [OF y(2,3)] obtain a
    where "rad2deg (fl_arccos (Finite y)) = Finite a" "0 \<le> a" "a \<le> 180" by blast
  with y show ?thesis by (auto simp: pitch_of_def)
qed


lemma foldl_add_finite:
  "list_all fl_isfinite xs \<Longrightarrow> \<exists>s. foldl fl_add (Finite a) xs = Finite s"
proof (induction xs arbitrary: a)
  case Nil
  then show ?case by simp
next
  case (Cons x xs)
  then obtain b where "x = Finite b" by (cases x) simp_all
  with Cons show ?case by simp
qed

lemma foldl_add_nonneg:
  "list_all (\<lambda>x. \<exists>b. x = Finite b \<and> 0 \<le> b) xs \<Longrightarrow> 0 \<le> a \<Longrightarrow>
   \<exists>s. foldl fl_add (Finite a) xs = Finite s \<and> 0 \<le> s"
proof (induction xs arbitrary: a)
  case Nil
  then show ?case by simp
next
  case (Cons x xs)
  then obtain b where b: "x = Finite b" "0 \<le> b" by auto
  from Cons.prems have "list_all (\<lambda>x. \<exists>b. x = Finite b \<and> 0 \<le> b) xs" by simp
  from Cons.IH [OF this, of "a + b"] b Cons.prems show ?case by simp
qed

lemma fl_sum_finite: "list_all fl_isfinite xs \<Longrightarrow> fl_isfinite (fl_sum xs)"
  using foldl_add_finite [of xs 0] by (auto simp: fl_sum_def)

lemma linalg_norm_finite:
  assumes "list_all fl_isfinite v"
  shows "\<exists>n. linalg_norm v = Finite n \<and> 0 \<le> n"
proof -
  have "list_all (\<lambda>x. \<exists>b. x = Finite b \<and> 0 \<le> b) (map (\<lambda>c. fl_mul c c) v)"
    using assms
  proof (induction v)
    case Nil
    then show ?case by simp
  next
    case (Cons x v)
    then obtain b where "x = Finite b" by (cases x) simp_all
    with Cons show ?case by simp
  qed
  from foldl_add_nonneg [OF this, of 0] obtain s
    where "fl_sum (map (\<lambda>c. fl_mul c c) v) = Finite s" "0 \<le> s"
    by (auto simp: fl_sum_def)
  then show ?thesis by (simp add: linalg_norm_def)
qed

lemma einsum_k_finite:
  assumes "list_all fl_isfinite u" and "list_all fl_isfinite c"
  shows "fl_isfinite (einsum_k u c)"
proof -
  have "list_all fl_isfinite (map2 fl_mul u c)"
    using assms
  proof (induction u arbitrary: c)
    case Nil
    then show ?case by simp
  next
    case (Cons x u)
    show ?case
    proof (cases c)
      case Nil
      then show ?thesis by simp
    next
      case (Cons y c')
      from Cons.prems \<open>c = y # c'\<close> obtain a b where "x = Finite a" "y = Finite b"
        by (cases x; cases y) simp_all
      with Cons.prems Cons.IH [of c'] \<open>c = y # c'\<close> show ?thesis by simp
    qed
  qed
  then show ?thesis by (simp add: einsum_k_def fl_sum_finite)
qed

lemma unit_vector_finite:
  assumes "list_all fl_isfinite v" and "\<not> invalid_mag_mask r" and "v = mag_cols r"
  shows "list_all fl_isfinite (map (\<lambda>b. fl_div b (linalg_norm v)) v)"
proof -
  from linalg_norm_finite [OF assms(1)] obtain n where n: "linalg_norm v = Finite n" "0 \<le> n"
    by blast
  with assms(2,3) have "n \<noteq> 0"
    by (auto simp: invalid_mag_mask_def Let_def)
  have "fl_isfinite (fl_div b (Finite n))" if "fl_isfinite b" for b
    using that \<open>n \<noteq> 0\<close> by (cases b) simp_all
  with assms(1) n show ?thesis by (simp add: list_all_iff)
qed

lemma look_direction_finite:
  assumes "fl_isfinite p" and "fl_isfinite t"
  shows "list_all fl_isfinite
           [fl_mul (fl_cos (deg2rad p)) (fl_cos (deg2rad t)),
            fl_mul (fl_sin (deg2rad p)) (fl_cos (deg2rad t)), fl_sin (deg2rad t)]"
  using assms by (cases p; cases t) (simp_all add: deg2rad_def)

lemma fl_isfinite_not_nan: "fl_isfinite a \<Longrightarrow> a \<noteq> NaN"
  by (cases a) simp_all

text \<open>
  Claim C2, as amended. For every row \<open>i\<close> and channel \<open>c\<close> of the table a PitchAngle
  object was built from, the stored pitch angle is \<open>rad2deg (arccos (clip (- (unit_B \<cdot>
  direction)) (-1) 1))\<close>, with \<open>unit_B\<close> the field of the row divided by its magnitude
  and \<open>direction\<close> the Cartesian look direction of the channel. When the dot product is
  not NaN, the clipped argument lies in [-1, 1] and the entry lies in [0, 180],
  whatever the size of the dot product; when it is NaN the entry is NaN. The dot
  product is not NaN for a row that the magnitude mask does not flag and whose field
  components, azimuth and polar angle are finite.
\<close>

theorem pitch_angle_entry:
  assumes "PitchAngle_init cfg (Some d) thetas_deg = Inr P"
    and "i < length d" and "c < CHANNELS cfg" and "c < length (phi_cols (d ! i))"
  shows "\<exists>tbl. pitch_angles P = Some tbl \<and> length tbl = length d \<and>
     (let B = mag_cols (d ! i);
          unit_B = map (\<lambda>b. fl_div b (linalg_norm B)) B;
          p = deg2rad (phi_cols (d ! i) ! c);
          t = deg2rad (thetas_deg ! c);
          direction = [fl_mul (fl_cos p) (fl_cos t), fl_mul (fl_sin p) (fl_cos t), fl_sin t];
          dot_product = einsum_k unit_B direction;
          clipped = fl_clip (fl_neg dot_product) (Finite (- 1)) (Finite 1)
      in tbl ! i ! c = rad2deg (fl_arccos clipped)
         \<and> (dot_product = NaN \<longrightarrow> tbl ! i ! c = NaN)
         \<and> (dot_product \<noteq> NaN \<longrightarrow>
              (\<exists>y a. clipped = Finite y \<and> - 1 \<le> y \<and> y \<le> 1
                     \<and> tbl ! i ! c = Finite a \<and> 0 \<le> a \<and> a \<le> 180))
         \<and> (\<not> invalid_mag_mask (d ! i) \<and> list_all fl_isfinite B
              \<and> fl_isfinite (phi_cols (d ! i) ! c) \<and> fl_isfinite (thetas_deg ! c)
              \<longrightarrow> dot_product \<noteq> NaN))"
proof -
  from PitchAngle_init_table [OF assms(1)] obtain tbl
    where len: "length thetas_deg = CHANNELS cfg"
      and tbl: "pitch_angles P = Some tbl" "length tbl = length d"
      and row: "\<forall>i < length d. tbl ! i =
              map2 pitch_of
                (replicate (CHANNELS cfg)
                   (map (\<lambda>b. fl_div b (linalg_norm (mag_cols (d ! i)))) (mag_cols (d ! i))))
                (map2 (\<lambda>p t. [fl_mul (fl_cos p) (fl_cos t),
                               fl_mul (fl_sin p) (fl_cos t), fl_sin t])
                   (map deg2rad (phi_cols (d ! i))) (map deg2rad thetas_deg))"
    by blast
  define B where "B = mag_cols (d ! i)"
  define unit_B where "unit_B = map (\<lambda>b. fl_div b (linalg_norm B)) B"
  define p where "p = deg2rad (phi_cols (d ! i) ! c)"
  define t where "t = deg2rad (thetas_deg ! c)"
  define direction where
    "direction = [fl_mul (fl_cos p) (fl_cos t), fl_mul (fl_sin p) (fl_cos t), fl_sin t]"
  from row assms(2) have "tbl ! i ! c = map2 pitch_of (replicate (CHANNELS cfg) unit_B)
      (map2 (\<lambda>p t. [fl_mul (fl_cos p) (fl_cos t), fl_mul (fl_sin p) (fl_cos t), fl_sin t])
         (map deg2rad (phi_cols (d ! i))) (map deg2rad thetas_deg)) ! c"
    by (simp add: unit_B_def B_def)
  also have "\<dots> = pitch_of unit_B direction"
    using assms(3,4) len by (simp add: direction_def p_def t_def)
  finally have entry: "tbl ! i ! c = pitch_of unit_B direction" .
  have e1: "tbl ! i ! c =
      rad2deg (fl_arccos (fl_clip (fl_neg (einsum_k unit_B direction)) (Finite (- 1)) (Finite 1)))"
    by (simp add: entry pitch_of_def)
  have e2: "einsum_k unit_B direction = NaN \<longrightarrow> tbl ! i ! c = NaN"
    by (simp add: entry pitch_of_nan)
  have e3: "einsum_k unit_B direction \<noteq> NaN \<longrightarrow>
      (\<exists>y a. fl_clip (fl_neg (einsum_k unit_B direction)) (Finite (- 1)) (Finite 1) = Finite y
             \<and> - 1 \<le> y \<and> y \<le> 1 \<and> tbl ! i ! c = Finite a \<and> 0 \<le> a \<and> a \<le> 180)"
    using pitch_of_range [of unit_B direction] by (simp add: entry)
  have e4: "\<not> invalid_mag_mask (d ! i) \<and> list_all fl_isfinite B
      \<and> fl_isfinite (phi_cols (d ! i) ! c) \<and> fl_isfinite (thetas_deg ! c)
      \<longrightarrow> einsum_k unit_B direction \<noteq> NaN"
  proof (intro impI, elim conjE)
    assume a: "\<not> invalid_mag_mask (d ! i)" "list_all fl_isfinite B"
      "fl_isfinite (phi_cols (d ! i) ! c)" "fl_isfinite (thetas_deg ! c)"
    have "list_all fl_isfinite unit_B"
      unfolding unit_B_def by (rule unit_vector_finite [OF a(2) a(1)]) (simp add: B_def)
    moreover have "list_all fl_isfinite direction"
      unfolding direction_def p_def t_def by (rule look_direction_finite [OF a(3,4)])
    ultimately show "einsum_k unit_B direction \<noteq> NaN"
      by (intro fl_isfinite_not_nan einsum_k_finite)
  qed
  from tbl e1 e2 e3 e4 show ?thesis
    unfolding Let_def B_def [symmetric] unit_B_def [symmetric] p_def [symmetric]
      t_def [symmetric] direction_def [symmetric]
    by blast
qed


text \<open>
  One row of two channels with the field (50, 0, 0), azimuths 0 and 180 and polar angles
  0: the look directions are (1, 0, 0) and (-1, 0, 0), the negated dot products -1 and
  1, the pitch angles 180 and 0 degrees.
\<close>

lemma PitchAngle_init_example:
  "PitchAngle_init \<lparr>CHANNELS = 2, SWEEP_ROWS = 1, EPS = Finite (1 / 1000)\<rparr>
     (Some [\<lparr>spec_no = 1, time = ''1998-03-01T00:00:00'',
             mag_cols = [Finite 50, Finite 0, Finite 0], phi_cols = [Finite 0, Finite 180],
             flux_cols = [Finite 2, Finite 2], energy = Finite 1\<rparr>])
     [Finite 0, Finite 0]
   = Inr \<lparr>pa_er_data = Some [\<lparr>spec_no = 1, time = ''1998-03-01T00:00:00'',
             mag_cols = [Finite 50, Finite 0, Finite 0], phi_cols = [Finite 0, Finite 180],
             flux_cols = [Finite 2, Finite 2], energy = Finite 1\<rparr>],
          pa_thetas = [Finite 0, Finite 0],
          cartesian_coords = Some [[[Finite 1, Finite 0, Finite 0],
                                    [Finite (- 1), Finite 0, Finite 0]]],
          pitch_angles = Some [[Finite 180, Finite 0]],
          unit_magnetic_field = Some [[[Finite 1, Finite 0, Finite 0],
                                       [Finite 1, Finite 0, Finite 0]]],
          valid_mask = Some [True]\<rparr>"
  by (simp add: PitchAngle_init_def process_data_def calculate_pitch_angles_def
      get_cartesian_coords_def pitch_of_def einsum_k_def linalg_norm_def fl_sum_def
      deg2rad_def rad2deg_def fl_gt_def Let_def numeral_2_eq_2)

theorem pitch_angle_entry_witness:
  "pitch_angles \<lparr>pa_er_data = Some [\<lparr>spec_no = 1, time = ''1998-03-01T00:00:00'',
             mag_cols = [Finite 50, Finite 0, Finite 0], phi_cols = [Finite 0, Finite 180],
             flux_cols = [Finite 2, Finite 2], energy = Finite 1\<rparr>],
          pa_thetas = [Finite 0, Finite 0],
          cartesian_coords = Some [[[Finite 1, Finite 0, Finite 0],
                                    [Finite (- 1), Finite 0, Finite 0]]],
          pitch_angles = Some [[Finite 180, Finite 0]],
          unit_magnetic_field = Some [[[Finite 1, Finite 0, Finite 0],
                                       [Finite 1, Finite 0, Finite 0]]],
          valid_mask = Some [True]\<rparr> = Some [[Finite 180, Finite 0]]
   \<and> einsum_k (map (\<lambda>b. fl_div b (linalg_norm [Finite 50, Finite 0, Finite 0]))
                 [Finite 50, Finite 0, Finite 0])
        [fl_mul (fl_cos (deg2rad (Finite 180))) (fl_cos (deg2rad (Finite 0))),
         fl_mul (fl_sin (deg2rad (Finite 180))) (fl_cos (deg2rad (Finite 0))),
         fl_sin (deg2rad (Finite 0))] \<noteq> NaN"
  using pitch_angle_entry [OF PitchAngle_init_example, of 0 "Suc 0"]
  by (simp add: Let_def invalid_mag_mask_def linalg_norm_def fl_sum_def fl_ge_def)

text \<open>
  Claim C2 as stated fails on a row whose first azimuth is NaN: the cleaning keeps the
  row (it checks the field and the timestamp only), the look direction of channel 0 and
  its dot product are NaN, the clipped argument of arccos is NaN and so is the pitch
  angle, which is neither \<open>\<ge> 0\<close> nor \<open>\<le> 180\<close>.
\<close>

theorem pitch_angle_nan_counterexample:
  "clean_sweep_data (Some [\<lparr>spec_no = 1, time = ''1998-03-01T00:00:00'',
             mag_cols = [Finite 50, Finite 0, Finite 0], phi_cols = [NaN, Finite 180],
             flux_cols = [Finite 2, Finite 2], energy = Finite 1\<rparr>])
   = Some [\<lparr>spec_no = 1, time = ''1998-03-01T00:00:00'',
             mag_cols = [Finite 50, Finite 0, Finite 0], phi_cols = [NaN, Finite 180],
             flux_cols = [Finite 2, Finite 2], energy = Finite 1\<rparr>]
   \<and> PitchAngle_init \<lparr>CHANNELS = 2, SWEEP_ROWS = 1, EPS = Finite (1 / 1000)\<rparr>
     (Some [\<lparr>spec_no = 1, time = ''1998-03-01T00:00:00'',
             mag_cols = [Finite 50, Finite 0, Finite 0], phi_cols = [NaN, Finite 180],
             flux_cols = [Finite 2, Finite 2], energy = Finite 1\<rparr>])
     [Finite 0, Finite 0]
   = Inr \<lparr>pa_er_data = Some [\<lparr>spec_no = 1, time = ''1998-03-01T00:00:00'',
             mag_cols = [Finite 50, Finite 0, Finite 0], phi_cols = [NaN, Finite 180],
             flux_cols = [Finite 2, Finite 2], energy = Finite 1\<rparr>],
          pa_thetas = [Finite 0, Finite 0],
          cartesian_coords = Some [[[NaN, NaN, Finite 0],
                                    [Finite (- 1), Finite 0, Finite 0]]],
          pitch_angles = Some [[NaN, Finite 0]],
          unit_magnetic_field = Some [[[Finite 1, Finite 0, Finite 0],
                                       [Finite 1, Finite 0, Finite 0]]],
          valid_mask = Some [True]\<rparr>
   \<and> \<not> fl_le (Finite 0) NaN \<and> \<not> fl_le NaN (Finite 180)
   \<and> fl_clip (fl_neg (einsum_k [Finite 1, Finite 0, Finite 0] [NaN, NaN, Finite 0]))
        (Finite (- 1)) (Finite 1) = NaN"
  by (simp add: clean_sweep_data_def invalid_spec_nos_def invalid_rows_mask_def
      invalid_mag_mask_def invalid_time_mask_def fl_ge_def
      PitchAngle_init_def process_data_def calculate_pitch_angles_def
      get_cartesian_coords_def pitch_of_def einsum_k_def linalg_norm_def fl_sum_def
      deg2rad_def rad2deg_def fl_gt_def Let_def numeral_2_eq_2)

section \<open>Properties of the normalised flux\<close>

lemma LossConeFitter_init_fields:
  assumes "LossConeFitter_init ext entropy cfg data thetas_deg = Inr f"
  shows "er_data f = data"
    and "PitchAngle_init cfg data thetas_deg = Inr (pitch_angle f)"
    and "lhs f = generate_latin_hypercube ext entropy"
    and "thetas f = thetas_deg"
  using assms by (auto simp: LossConeFitter_init_def split: sum.splits)

lemma PitchAngle_init_loaded:
  "PitchAngle_init cfg data thetas_deg = Inr P \<Longrightarrow> \<exists>d. data = Some d"
  by (cases data) (auto simp: PitchAngle_init_def process_data_def)

lemma fitter_table:
  assumes "LossConeFitter_init ext entropy cfg (Some d) thetas_deg = Inr f"
  shows "\<exists>tbl. pitch_angles (pitch_angle f) = Some tbl \<and> length tbl = length d \<and>
           (\<forall>i < length d. length (tbl ! i) = min (CHANNELS cfg) (length (phi_cols (d ! i))))"
proof -
  note pa = LossConeFitter_init_fields(2) [OF assms]
  from PitchAngle_init_table [OF pa] obtain tbl
    where len: "length thetas_deg = CHANNELS cfg"
      and tbl: "pitch_angles (pitch_angle f) = Some tbl" "length tbl = length d"
      and row: "\<forall>i < length d. tbl ! i =
              map2 pitch_of
                (replicate (CHANNELS cfg)
                   (map (\<lambda>b. fl_div b (linalg_norm (mag_cols (d ! i)))) (mag_cols (d ! i))))
                (map2 (\<lambda>p t. [fl_mul (fl_cos p) (fl_cos t),
                               fl_mul (fl_sin p) (fl_cos t), fl_sin t])
                   (map deg2rad (phi_cols (d ! i))) (map deg2rad thetas_deg))"
    by blast
  from row len have "\<forall>i < length d. length (tbl ! i) = min (CHANNELS cfg) (length (phi_cols (d ! i)))"
    by auto
  with tbl show ?thesis by blast
qed

lemma py_index_nonneg:
  "0 \<le> i \<Longrightarrow> i < int (length xs) \<Longrightarrow> py_index xs i = Inr (xs ! nat i)"
  by (simp add: py_index_def)

lemma get_normalized_flux_unfold:
  assumes "er_data f = Some d" and "pitch_angles (pitch_angle f) = Some tbl"
    and "length tbl = length d"
    and "0 \<le> measurement_chunk * int (SWEEP_ROWS cfg) + energy_bin"
  shows "get_normalized_flux cfg f energy_bin measurement_chunk =
    (let index = measurement_chunk * int (SWEEP_ROWS cfg) + energy_bin
     in if index \<ge> int (length d) then Inr (replicate (CHANNELS cfg) NaN)
        else
          (let electron_flux = flux_cols (d ! nat index); angles = tbl ! nat index
           in if \<not> list_ex (\<lambda>a. fl_lt a (Finite 90)) angles
              then Inr (replicate (length electron_flux) NaN)
              else if length angles \<noteq> length electron_flux then Inl IndexError
              else Inr (map (\<lambda>x. fl_div x
                              (py_max (EPS cfg)
                                 (np_mean (map fst (filter snd
                                    (zip electron_flux
                                       (map (\<lambda>a. fl_lt a (Finite 90)) angles)))))))
                          electron_flux)))"
  using assms
  by (simp add: get_normalized_flux_def Let_def py_index_nonneg bool_index_def list_ex_iff)

lemma incident_by_channel:
  "length xs = length ys \<Longrightarrow>
   map fst (filter snd (zip xs (map P ys)))
   = map ((!) xs) (filter (\<lambda>c. P (ys ! c)) [0 ..< length xs])"
proof (induction xs arbitrary: ys rule: rev_induct)
  case Nil
  then show ?case by simp
next
  case (snoc x xs)
  from snoc.prems obtain y ys' where ys: "ys = ys' @ [y]" and len: "length xs = length ys'"
    by (cases ys rule: rev_cases) simp_all
  have f: "filter (\<lambda>c. P ((ys' @ [y]) ! c)) [0 ..< length xs]
           = filter (\<lambda>c. P (ys' ! c)) [0 ..< length xs]"
    using len by (intro filter_cong) (auto simp: nth_append)
  have m: "map ((!) (xs @ [x])) (filter (\<lambda>c. P (ys' ! c)) [0 ..< length xs])
           = map ((!) xs) (filter (\<lambda>c. P (ys' ! c)) [0 ..< length xs])"
    by (intro map_cong) (auto simp: nth_append)
  have l: "map fst (filter snd (zip (xs @ [x]) (map P (ys' @ [y]))))
           = map fst (filter snd (zip xs (map P ys'))) @ (if P y then [x] else [])"
    using len by simp
  have "[0 ..< length (xs @ [x])] = [0 ..< length xs] @ [length xs]" by simp
  then have "map ((!) (xs @ [x])) (filter (\<lambda>c. P ((ys' @ [y]) ! c)) [0 ..< length (xs @ [x])])
      = map ((!) (xs @ [x])) (filter (\<lambda>c. P ((ys' @ [y]) ! c)) [0 ..< length xs])
        @ map ((!) (xs @ [x])) (filter (\<lambda>c. P ((ys' @ [y]) ! c)) [length xs])"
    by (simp only: filter_append map_append)
  also have "map ((!) (xs @ [x])) (filter (\<lambda>c. P ((ys' @ [y]) ! c)) [length xs])
      = (if P y then [x] else [])"
  proof -
    have "(ys' @ [y]) ! length xs = y" unfolding len by simp
    moreover have "(xs @ [x]) ! length xs = x" by simp
    ultimately show ?thesis by simp
  qed
  finally have r: "map ((!) (xs @ [x])) (filter (\<lambda>c. P ((ys' @ [y]) ! c)) [0 ..< length (xs @ [x])])
      = map ((!) xs) (filter (\<lambda>c. P (ys' ! c)) [0 ..< length xs]) @ (if P y then [x] else [])"
    by (simp only: f m)
  show ?case unfolding ys l r using snoc.IH [OF len] by simp
qed

lemma py_max_not_below: "\<not> fl_lt (py_max e m) e"
  by (cases e; cases m) (simp_all add: py_max_def fl_gt_def)

lemma py_max_floor: "e \<noteq> NaN \<Longrightarrow> fl_le e (py_max e m)"
  by (cases e; cases m) (simp_all add: py_max_def fl_gt_def)

lemma list_ex_channels:
  "length angles = n \<Longrightarrow> list_ex P angles \<longleftrightarrow> (\<exists>c < n. P (angles ! c))"
  by (auto simp: list_ex_length)

lemma py_max_positive_or_inf:
  assumes "0 < e"
  shows "(\<exists>r > 0. py_max (Finite e) m = Finite r) \<or> py_max (Finite e) m = PosInf"
  using assms by (cases m) (auto simp: py_max_def fl_gt_def)

lemma div_by_positive_not_nan:
  "fl_isfinite x \<Longrightarrow> 0 < r \<Longrightarrow> fl_div x (Finite r) \<noteq> NaN"
  "fl_isfinite x \<Longrightarrow> fl_div x PosInf \<noteq> NaN"
  by (cases x; simp)+

text \<open>
  Claim C3. For a row (at a non-negative index inside the table) that has an incident
  channel, \<^verbatim>\<open>_get_normalized_flux\<close> returns the raw flux of every channel, incident or
  reflected, divided by one reference value: Python's \<^verbatim>\<open>max(EPS, mean)\<close> of the raw
  flux at the incident channels. The reference is never below \<open>EPS\<close>. The row is
  assumed to carry \<open>CHANNELS\<close> azimuths and fluxes, as the column lists of the
  configuration say.
\<close>

theorem normalized_flux_reference:
  assumes "LossConeFitter_init ext entropy cfg (Some d) thetas_deg = Inr f"
    and "pitch_angles (pitch_angle f) = Some tbl"
    and "0 \<le> energy_bin" and "0 \<le> measurement_chunk"
    and "measurement_chunk * int (SWEEP_ROWS cfg) + energy_bin < int (length d)"
    and "i = nat (measurement_chunk * int (SWEEP_ROWS cfg) + energy_bin)"
    and "length (phi_cols (d ! i)) = CHANNELS cfg"
    and "length (flux_cols (d ! i)) = CHANNELS cfg"
    and "\<exists>c < CHANNELS cfg. fl_lt (tbl ! i ! c) (Finite 90)"
  shows "let incident = map ((!) (flux_cols (d ! i)))
                          (filter (\<lambda>c. fl_lt (tbl ! i ! c) (Finite 90)) [0 ..< CHANNELS cfg]);
             incident_flux = py_max (EPS cfg) (np_mean incident)
         in get_normalized_flux cfg f energy_bin measurement_chunk
              = Inr (map (\<lambda>x. fl_div x incident_flux) (flux_cols (d ! i)))
            \<and> \<not> fl_lt incident_flux (EPS cfg)
            \<and> (EPS cfg \<noteq> NaN \<longrightarrow> fl_le (EPS cfg) incident_flux)"
proof -
  from fitter_table [OF assms(1)] assms(2) have len: "length tbl = length d"
    and rows: "\<forall>j < length d. length (tbl ! j) = min (CHANNELS cfg) (length (phi_cols (d ! j)))"
    by auto
  have nonneg: "0 \<le> measurement_chunk * int (SWEEP_ROWS cfg) + energy_bin"
    using assms(3,4) by simp
  have i: "i < length d" using assms(5,6) nonneg by simp
  with rows assms(7) have la: "length (tbl ! i) = CHANNELS cfg" by simp
  have ex: "list_ex (\<lambda>a. fl_lt a (Finite 90)) (tbl ! i)"
    using assms(9) by (simp add: list_ex_channels [OF la])
  have inc: "map fst (filter snd (zip (flux_cols (d ! i))
                 (map (\<lambda>a. fl_lt a (Finite 90)) (tbl ! i))))
      = map ((!) (flux_cols (d ! i)))
          (filter (\<lambda>c. fl_lt (tbl ! i ! c) (Finite 90)) [0 ..< CHANNELS cfg])"
    using incident_by_channel [of "flux_cols (d ! i)" "tbl ! i" "\<lambda>a. fl_lt a (Finite 90)"]
      la assms(8) by simp
  have "get_normalized_flux cfg f energy_bin measurement_chunk
      = Inr (map (\<lambda>x. fl_div x (py_max (EPS cfg) (np_mean (map ((!) (flux_cols (d ! i)))
          (filter (\<lambda>c. fl_lt (tbl ! i ! c) (Finite 90)) [0 ..< CHANNELS cfg])))))
          (flux_cols (d ! i)))"
    using get_normalized_flux_unfold [OF LossConeFitter_init_fields(1) [OF assms(1)] assms(2) len nonneg]
      assms(5) ex la assms(8) inc
    by (simp add: Let_def assms(6) [symmetric])
  moreover have "\<not> fl_lt (py_max (EPS cfg) m) (EPS cfg)" for m
    by (rule py_max_not_below)
  moreover have "EPS cfg \<noteq> NaN \<longrightarrow> fl_le (EPS cfg) (py_max (EPS cfg) m)" for m
    using py_max_floor [of "EPS cfg" m] by blast
  ultimately show ?thesis
    unfolding Let_def by blast
qed


lemma ex_norms:
  "linalg_norm [Finite (- 50), Finite 0, Finite 0] = Finite 50"
  "linalg_norm [Finite 0, Finite 0, Finite 50] = Finite 50"
  by (simp_all add: linalg_norm_def fl_sum_def)

lemma ex_pitch_of:
  "pitch_of [Finite (- 1), Finite 0, Finite 0] [Finite 1, Finite 0, Finite 0] = Finite 0"
  "pitch_of [Finite (- 1), Finite 0, Finite 0] [Finite (- 1), Finite 0, Finite 0] = Finite 180"
  "pitch_of [Finite 0, Finite 0, Finite 1] [Finite 1, Finite 0, Finite 0] = Finite 90"
  "pitch_of [Finite 0, Finite 0, Finite 1] [Finite (- 1), Finite 0, Finite 0] = Finite 90"
  by (simp_all add: pitch_of_def einsum_k_def fl_sum_def rad2deg_def fl_gt_def)

lemma ex_PitchAngle_init:
  "PitchAngle_init ex_cfg (Some ex_data) [Finite 0, Finite 0]
   = Inr (ex_pitch ex_data
            [[[Finite (- 1), Finite 0, Finite 0], [Finite (- 1), Finite 0, Finite 0]],
             [[Finite 0, Finite 0, Finite 1], [Finite 0, Finite 0, Finite 1]]]
            [[Finite 0, Finite 180], [Finite 90, Finite 90]])"
  by (simp add: PitchAngle_init_def process_data_def calculate_pitch_angles_def
      get_cartesian_coords_def ex_cfg_def ex_data_def ex_row_def ex_pitch_def ex_norms
      ex_pitch_of deg2rad_def Let_def numeral_2_eq_2)

lemma ex_lhs: "generate_latin_hypercube (ex_ext ok) 0 = [(Finite (- 500), Finite (13 / 40)), (Finite 500, Finite (31 / 40))]"
  by (simp add: generate_latin_hypercube_def ex_ext_def fl_sub_def Let_def)

lemma ex_LossConeFitter_init:
  "LossConeFitter_init (ex_ext ok) 0 ex_cfg (Some ex_data) [Finite 0, Finite 0]
   = Inr (ex_fitter ex_data ex_umf ex_tbl)"
  by (simp add: LossConeFitter_init_def ex_PitchAngle_init ex_lhs ex_fitter_def ex_umf_def
      ex_tbl_def)

text \<open>
  Row 0 of the example: channel 0 is incident (pitch angle 0), its flux 4 is the
  reference, and both channels are divided by it.
\<close>

theorem normalized_flux_reference_witness:
  "get_normalized_flux ex_cfg (ex_fitter ex_data ex_umf ex_tbl) 0 0 = Inr [Finite 1, Finite 1]
   \<and> py_max (EPS ex_cfg) (np_mean [Finite 4]) = Finite 4
   \<and> fl_le (EPS ex_cfg) (Finite 4)"
proof -
  have tbl: "pitch_angles (pitch_angle (ex_fitter ex_data ex_umf ex_tbl)) = Some ex_tbl"
    by (simp add: ex_fitter_def ex_pitch_def)
  have mean: "py_max (EPS ex_cfg) (np_mean [Finite 4]) = Finite 4"
    by (simp add: py_max_def np_mean_def fl_sum_def fl_gt_def ex_cfg_def)
  have inc: "map ((!) (flux_cols (ex_data ! 0)))
      (filter (\<lambda>c. fl_lt (ex_tbl ! 0 ! c) (Finite 90)) [0 ..< CHANNELS ex_cfg]) = [Finite 4]"
    by (simp add: ex_data_def ex_row_def ex_tbl_def ex_cfg_def upt_rec)
  have "\<exists>c < CHANNELS ex_cfg. fl_lt (ex_tbl ! 0 ! c) (Finite 90)"
    by (rule exI [of _ 0]) (simp add: ex_cfg_def ex_tbl_def)
  from normalized_flux_reference [OF ex_LossConeFitter_init tbl, of 0 0 0, OF _ _ _ _ _ _ this]
  show ?thesis
    by (simp add: Let_def inc mean) (simp add: ex_data_def ex_row_def ex_cfg_def)
qed


text \<open>
  Claim C4, as amended. For non-negative indices (and rows of \<open>CHANNELS\<close> azimuths and
  fluxes) \<^verbatim>\<open>_get_normalized_flux\<close> raises nothing and returns a vector of length
  \<open>CHANNELS\<close>; the vector is all NaN when the row index is outside the table and when
  no channel of the row has a pitch angle below 90. Conversely, for a row inside the
  table with an incident channel, finite flux cells and a finite positive \<open>EPS\<close>, no
  entry of the result is NaN (the reference is then a positive number or +inf, and a
  finite flux divided by it is not NaN).
\<close>

theorem normalized_flux_nan_sentinel:
  assumes "LossConeFitter_init ext entropy cfg (Some d) thetas_deg = Inr f"
    and "pitch_angles (pitch_angle f) = Some tbl"
    and "0 \<le> energy_bin" and "0 \<le> measurement_chunk"
    and "list_all (\<lambda>r. length (phi_cols r) = CHANNELS cfg
                        \<and> length (flux_cols r) = CHANNELS cfg) d"
    and "index = measurement_chunk * int (SWEEP_ROWS cfg) + energy_bin"
  shows "(\<exists>v. get_normalized_flux cfg f energy_bin measurement_chunk = Inr v
              \<and> length v = CHANNELS cfg)
       \<and> (int (length d) \<le> index \<longrightarrow>
            get_normalized_flux cfg f energy_bin measurement_chunk
              = Inr (replicate (CHANNELS cfg) NaN))
       \<and> (index < int (length d)
            \<and> \<not> (\<exists>c < CHANNELS cfg. fl_lt (tbl ! nat index ! c) (Finite 90)) \<longrightarrow>
            get_normalized_flux cfg f energy_bin measurement_chunk
              = Inr (replicate (CHANNELS cfg) NaN))
       \<and> (index < int (length d)
            \<and> (\<exists>c < CHANNELS cfg. fl_lt (tbl ! nat index ! c) (Finite 90))
            \<and> list_all fl_isfinite (flux_cols (d ! nat index))
            \<and> (\<exists>e > 0. EPS cfg = Finite e) \<longrightarrow>
            (\<exists>v. get_normalized_flux cfg f energy_bin measurement_chunk = Inr v
                 \<and> list_all (\<lambda>x. x \<noteq> NaN) v))"
proof -
  from fitter_table [OF assms(1)] assms(2) have len: "length tbl = length d"
    and rows: "\<forall>j < length d. length (tbl ! j) = min (CHANNELS cfg) (length (phi_cols (d ! j)))"
    by auto
  have nonneg: "0 \<le> measurement_chunk * int (SWEEP_ROWS cfg) + energy_bin"
    using assms(3,4) by simp
  note unf = get_normalized_flux_unfold
    [OF LossConeFitter_init_fields(1) [OF assms(1)] assms(2) len nonneg]
  show ?thesis
  proof (cases "int (length d) \<le> index")
    case True
    then show ?thesis using unf assms(6) by (simp add: Let_def)
  next
    case False
    then have i: "nat index < length d" using nonneg assms(6) by simp
    with assms(5) have schema: "length (phi_cols (d ! nat index)) = CHANNELS cfg"
      "length (flux_cols (d ! nat index)) = CHANNELS cfg"
      by (simp_all add: list_all_length)
    from rows i schema have la: "length (tbl ! nat index) = CHANNELS cfg" by simp
    show ?thesis
    proof (cases "\<exists>c < CHANNELS cfg. fl_lt (tbl ! nat index ! c) (Finite 90)")
      case none: False
      then have "\<not> list_ex (\<lambda>a. fl_lt a (Finite 90)) (tbl ! nat index)"
        by (simp add: list_ex_channels [OF la])
      with unf False assms(6) schema have
        "get_normalized_flux cfg f energy_bin measurement_chunk
           = Inr (replicate (CHANNELS cfg) NaN)"
        by (simp add: Let_def)
      with False none show ?thesis by auto
    next
      case some: True
      then have ex: "list_ex (\<lambda>a. fl_lt a (Finite 90)) (tbl ! nat index)"
        by (simp add: list_ex_channels [OF la])
      define incident where "incident = map fst (filter snd
          (zip (flux_cols (d ! nat index)) (map (\<lambda>a. fl_lt a (Finite 90)) (tbl ! nat index))))"
      from unf False assms(6) schema la ex have val:
        "get_normalized_flux cfg f energy_bin measurement_chunk
           = Inr (map (\<lambda>x. fl_div x (py_max (EPS cfg) (np_mean incident)))
                    (flux_cols (d ! nat index)))"
        by (simp add: Let_def incident_def)
      have fin: "list_all (\<lambda>x. x \<noteq> NaN)
          (map (\<lambda>x. fl_div x (py_max (EPS cfg) (np_mean incident))) (flux_cols (d ! nat index)))"
        if ff: "list_all fl_isfinite (flux_cols (d ! nat index))"
          and e: "0 < e" "EPS cfg = Finite e" for e
      proof -
        from py_max_positive_or_inf [OF e(1), of "np_mean incident"]
        have "\<forall>x. fl_isfinite x \<longrightarrow> fl_div x (py_max (EPS cfg) (np_mean incident)) \<noteq> NaN"
          using div_by_positive_not_nan by (auto simp: e(2))
        with ff show ?thesis by (simp add: list_all_iff)
      qed
      from val schema some False fin show ?thesis by auto
    qed
  qed
qed

text \<open>
  The example table: row 1 has no incident channel, row 2 does not exist, row 0 has an
  incident channel and finite fluxes.
\<close>

theorem normalized_flux_nan_sentinel_witness:
  "get_normalized_flux ex_cfg (ex_fitter ex_data ex_umf ex_tbl) 0 1 = Inr [NaN, NaN]
   \<and> get_normalized_flux ex_cfg (ex_fitter ex_data ex_umf ex_tbl) 0 2 = Inr [NaN, NaN]
   \<and> get_normalized_flux ex_cfg (ex_fitter ex_data ex_umf ex_tbl) 0 0 = Inr [Finite 1, Finite 1]"
proof -
  have tbl: "pitch_angles (pitch_angle (ex_fitter ex_data ex_umf ex_tbl)) = Some ex_tbl"
    by (simp add: ex_fitter_def ex_pitch_def)
  have schema: "list_all (\<lambda>r. length (phi_cols r) = CHANNELS ex_cfg
                        \<and> length (flux_cols r) = CHANNELS ex_cfg) ex_data"
    by (simp add: ex_data_def ex_row_def ex_cfg_def)
  note inst = normalized_flux_nan_sentinel [OF ex_LossConeFitter_init tbl _ _ schema]
  have none: "\<not> (\<exists>c < CHANNELS ex_cfg. fl_lt (ex_tbl ! nat 1 ! c) (Finite 90))"
  proof
    assume "\<exists>c < CHANNELS ex_cfg. fl_lt (ex_tbl ! nat 1 ! c) (Finite 90)"
    then obtain c where c: "c < 2" "fl_lt (ex_tbl ! 1 ! c) (Finite 90)"
      by (auto simp: ex_cfg_def)
    from c(1) have "c = 0 \<or> c = 1" by arith
    with c(2) show False by (auto simp: ex_tbl_def)
  qed
  have a: "get_normalized_flux ex_cfg (ex_fitter ex_data ex_umf ex_tbl) 0 1 = Inr [NaN, NaN]"
    using inst [of 0 1 1] none
    by (simp add: ex_cfg_def ex_data_def numeral_2_eq_2)
  have b: "get_normalized_flux ex_cfg (ex_fitter ex_data ex_umf ex_tbl) 0 2 = Inr [NaN, NaN]"
    using inst [of 0 2 2]
    by (simp add: ex_cfg_def ex_data_def numeral_2_eq_2)
  have c: "get_normalized_flux ex_cfg (ex_fitter ex_data ex_umf ex_tbl) 0 0
      = Inr [Finite 1, Finite 1]"
    by (simp add: get_normalized_flux_def ex_fitter_def ex_pitch_def ex_data_def ex_row_def
        ex_tbl_def ex_cfg_def py_index_def bool_index_def py_max_def np_mean_def fl_sum_def
        fl_gt_def Let_def)
  from a b c show ?thesis by simp
qed

lemma ex_nan_init:
  "LossConeFitter_init (ex_ext True) 0 ex_cfg (Some ex_nan_data) [Finite 0, Finite 0]
     = Inr (ex_fitter ex_nan_data
              [[[Finite (- 1), Finite 0, Finite 0], [Finite (- 1), Finite 0, Finite 0]]]
              [[Finite 0, Finite 180]])"
  by (simp add: LossConeFitter_init_def ex_lhs ex_fitter_def
      PitchAngle_init_def process_data_def calculate_pitch_angles_def
      get_cartesian_coords_def ex_cfg_def ex_nan_data_def ex_row_def ex_pitch_def ex_norms
      ex_pitch_of deg2rad_def Let_def numeral_2_eq_2)

text \<open>
  Claim C4 as stated (all NaN \<^emph>\<open>exactly\<close> when out of bounds or without an incident
  channel) fails on a row whose flux cells are NaN: the cleaning keeps the row, the row
  is inside the table and channel 0 is incident, and yet the result is all NaN, since
  the reference is \<open>EPS\<close> and NaN / EPS is NaN.
\<close>

theorem normalized_flux_nan_counterexample:
  "clean_sweep_data (Some ex_nan_data) = Some ex_nan_data
   \<and> LossConeFitter_init (ex_ext True) 0 ex_cfg (Some ex_nan_data) [Finite 0, Finite 0]
     = Inr (ex_fitter ex_nan_data
              [[[Finite (- 1), Finite 0, Finite 0], [Finite (- 1), Finite 0, Finite 0]]]
              [[Finite 0, Finite 180]])
   \<and> get_normalized_flux ex_cfg
       (ex_fitter ex_nan_data
              [[[Finite (- 1), Finite 0, Finite 0], [Finite (- 1), Finite 0, Finite 0]]]
              [[Finite 0, Finite 180]]) 0 0
     = Inr (replicate (CHANNELS ex_cfg) NaN)
   \<and> 0 * int (SWEEP_ROWS ex_cfg) + 0 < int (length ex_nan_data)
   \<and> fl_lt ([[Finite 0, Finite 180]] ! 0 ! 0) (Finite 90)"
proof -
  have "clean_sweep_data (Some ex_nan_data) = Some ex_nan_data"
    by (simp add: clean_sweep_data_def invalid_spec_nos_def invalid_rows_mask_def
        invalid_mag_mask_def invalid_time_mask_def ex_nan_data_def ex_row_def ex_norms
        fl_ge_def Let_def)
  moreover have "get_normalized_flux ex_cfg
       (ex_fitter ex_nan_data
              [[[Finite (- 1), Finite 0, Finite 0], [Finite (- 1), Finite 0, Finite 0]]]
              [[Finite 0, Finite 180]]) 0 0
     = Inr (replicate (CHANNELS ex_cfg) NaN)"
    by (simp add: get_normalized_flux_def ex_fitter_def ex_pitch_def ex_nan_data_def ex_row_def
        ex_cfg_def py_index_def bool_index_def py_max_def np_mean_def fl_sum_def
        fl_gt_def Let_def numeral_2_eq_2)
  ultimately show ?thesis
    by (simp add: ex_nan_init) (simp add: ex_nan_data_def)
qed

section \<open>Properties of the objective\<close>

lemma list_all_concat_nth:
  "list_all P (concat m) \<longleftrightarrow> (\<forall>i < length m. \<forall>j < length (m ! i). P (m ! i ! j))"
proof
  assume "list_all P (concat m)"
  then have a: "\<forall>y \<in> set m. \<forall>x \<in> set y. P x" by (auto simp: list_all_iff)
  show "\<forall>i < length m. \<forall>j < length (m ! i). P (m ! i ! j)"
  proof (intro allI impI)
    fix i j assume "i < length m" "j < length (m ! i)"
    then have "m ! i \<in> set m" "m ! i ! j \<in> set (m ! i)" by simp_all
    with a show "P (m ! i ! j)" by blast
  qed
next
  assume "\<forall>i < length m. \<forall>j < length (m ! i). P (m ! i ! j)"
  then show "list_all P (concat m)"
    by (auto simp: list_all_iff in_set_conv_nth)
qed

lemma map2_by_index:
  "length xs = length ys \<Longrightarrow> map2 f xs ys = map (\<lambda>i. f (xs ! i) (ys ! i)) [0 ..< length xs]"
  by (rule nth_equalityI) simp_all

lemma matrix_map2_by_index:
  assumes "length b = length a" and "\<forall>i < length a. length (b ! i) = length (a ! i)"
  shows "map2 (map2 g) a b
         = map (\<lambda>i. map (\<lambda>j. g (a ! i ! j) (b ! i ! j)) [0 ..< length (a ! i)]) [0 ..< length a]"
proof -
  have "map2 (map2 g) a b = map (\<lambda>i. map2 g (a ! i) (b ! i)) [0 ..< length a]"
    using assms(1) by (simp add: map2_by_index)
  also have "\<dots> = map (\<lambda>i. map (\<lambda>j. g (a ! i ! j) (b ! i ! j)) [0 ..< length (a ! i)])
                      [0 ..< length a]"
    using assms(2) by (intro map_cong refl) (simp add: map2_by_index)
  finally show ?thesis .
qed

text \<open>
  Claim C5. For every parameter pair, the objective returns the penalty 1e30 when
  some entry of the model's matrix is not finite or every entry is \<open>\<le> 0\<close>;
  otherwise it returns the sum, over all entries \<open>(i, j)\<close>, of the square of
  \<open>log (observed + 1e-6) - log (predicted + 1e-6)\<close>. The model's matrix is assumed to
  have the shape of the observed one, which is the interface of \<^verbatim>\<open>synth_losscone\<close>.
\<close>

theorem chi2_objective:
  assumes "model = synth_losscone ext energies pitches delta_U bs_over_bm"
    and "length model = length norm2d"
    and "\<forall>i < length norm2d. length (model ! i) = length (norm2d ! i)"
  shows "chi2 ext energies pitches norm2d (delta_U, bs_over_bm) =
     (if (\<exists>i < length model. \<exists>j < length (model ! i). \<not> fl_isfinite (model ! i ! j))
         \<or> (\<forall>i < length model. \<forall>j < length (model ! i). fl_le (model ! i ! j) (Finite 0))
      then Finite (10 ^ 30)
      else fl_sum (concat (map (\<lambda>i. map (\<lambda>j.
                 fl_mul (fl_sub (fl_log (fl_add (norm2d ! i ! j) (Finite (1 / 10 ^ 6))))
                                (fl_log (fl_add (model ! i ! j) (Finite (1 / 10 ^ 6)))))
                        (fl_sub (fl_log (fl_add (norm2d ! i ! j) (Finite (1 / 10 ^ 6))))
                                (fl_log (fl_add (model ! i ! j) (Finite (1 / 10 ^ 6))))))
               [0 ..< length (norm2d ! i)]) [0 ..< length norm2d])))"
proof -
  have pen: "(\<not> list_all fl_isfinite (concat model)
              \<or> list_all (\<lambda>m. fl_le m (Finite 0)) (concat model))
      \<longleftrightarrow> ((\<exists>i < length model. \<exists>j < length (model ! i). \<not> fl_isfinite (model ! i ! j))
         \<or> (\<forall>i < length model. \<forall>j < length (model ! i). fl_le (model ! i ! j) (Finite 0)))"
    by (simp add: list_all_concat_nth)
  have sq: "map (\<lambda>df. fl_mul df df) (concat (map2 (map2 g) norm2d model))
      = concat (map (\<lambda>i. map (\<lambda>j. fl_mul (g (norm2d ! i ! j) (model ! i ! j))
                                            (g (norm2d ! i ! j) (model ! i ! j)))
                               [0 ..< length (norm2d ! i)]) [0 ..< length norm2d])" for g
    unfolding matrix_map2_by_index [OF assms(2,3)]
    by (simp add: map_concat o_def)
  show ?thesis
    unfolding chi2_def Let_def fst_conv snd_conv assms(1) [symmetric] pen sq ..
qed


text \<open>
  One row of two channels, observed flux 1 and predicted flux 1 in both: no penalty,
  and the squared log differences sum to 0.
\<close>

theorem chi2_objective_witness:
  "chi2 (ex_ext True) [Finite 10] [[Finite 0, Finite 180]] [[Finite 1, Finite 1]]
     (Finite (- 500), Finite (13 / 40)) = Finite 0
   \<and> synth_losscone (ex_ext True) [Finite 10] [[Finite 0, Finite 180]] (Finite (- 500)) (Finite (13 / 40))
       = [[Finite 1, Finite 1]]"
proof -
  let ?M = "[[Finite 1, Finite 1 :: float64]]"
  have m: "?M
      = synth_losscone (ex_ext True) [Finite 10] [[Finite 0, Finite 180]] (Finite (- 500)) (Finite (13 / 40))"
    by (simp add: ex_ext_def)
  have l1: "length ?M = length ?M" ..
  have l2: "\<forall>i < length ?M. length (?M ! i) = length (?M ! i)" by simp
  have n: "\<not> ((\<exists>i < length ?M. \<exists>j < length (?M ! i). \<not> fl_isfinite (?M ! i ! j))
         \<or> (\<forall>i < length ?M. \<forall>j < length (?M ! i). fl_le (?M ! i ! j) (Finite 0)))"
    using list_all_concat_nth [of fl_isfinite ?M]
      list_all_concat_nth [of "\<lambda>m. fl_le m (Finite 0)" ?M]
    by simp
  have "chi2 (ex_ext True) [Finite 10] [[Finite 0, Finite 180]] ?M
     (Finite (- 500), Finite (13 / 40)) = Finite 0"
    unfolding chi2_objective [OF m l1 l2] if_not_P [OF n]
    by (simp add: fl_sum_def fl_sub_def upt_rec)
  with m show ?thesis by simp
qed

section \<open>Properties of the fits\<close>

lemma fit_loop_all_ok:
  assumes "\<forall>i \<in> set js. \<exists>t. fit_chunk ext cfg f (int i) = Inr t"
  shows "fit_loop ext cfg f js results
         = Inr (fold (\<lambda>i r. r[i := (case fit_chunk ext cfg f (int i) of
                                        Inr (a, b, c) \<Rightarrow> [a, b, c, Finite (real i)]
                                      | Inl _ \<Rightarrow> [])])
                  js results)"
  using assms
proof (induction js arbitrary: results)
  case Nil
  then show ?case by simp
next
  case (Cons i js)
  then obtain a b c where "fit_chunk ext cfg f (int i) = Inr (a, b, c)"
    by (metis list.set_intros(1) prod_cases3)
  with Cons show ?case by simp
qed

lemma fit_loop_Inr_all:
  "fit_loop ext cfg f js results = Inr tbl \<Longrightarrow>
   \<forall>i \<in> set js. \<exists>t. fit_chunk ext cfg f (int i) = Inr t"
proof (induction js arbitrary: results)
  case Nil
  then show ?case by simp
next
  case (Cons i js)
  then show ?case by (auto split: sum.splits)
qed

lemma fit_loop_first_error:
  assumes "\<forall>j \<in> set xs. \<exists>t. fit_chunk ext cfg f (int j) = Inr t"
    and "fit_chunk ext cfg f (int i) = Inl e"
  shows "fit_loop ext cfg f (xs @ i # ys) results = Inl e"
  using assms
proof (induction xs arbitrary: results)
  case Nil
  then show ?case by simp
next
  case (Cons x xs)
  then obtain t where "fit_chunk ext cfg f (int x) = Inr t" by auto
  with Cons show ?case by (cases t) simp
qed

lemma fold_update_upt:
  "n \<le> length results \<Longrightarrow>
   length (fold (\<lambda>i r. r[i := g i]) [0 ..< n] results) = length results
   \<and> (\<forall>i < length results.
         fold (\<lambda>i r. r[i := g i]) [0 ..< n] results ! i = (if i < n then g i else results ! i))"
proof (induction n)
  case 0
  then show ?case by simp
next
  case (Suc n)
  then show ?case by (auto simp: nth_list_update less_Suc_eq)
qed

text \<open>
  Claim C7. With a positive \<^verbatim>\<open>SWEEP_ROWS\<close>, a table that \<^verbatim>\<open>fit_surface_potential\<close>
  returns has exactly \<open>length d div SWEEP_ROWS\<close> rows (the trailing partial chunk is
  not fitted), and row \<open>i\<close> is \<open>[\<Delta>U, B\<^sub>s/B\<^sub>m, \<chi>\<^sup>2, i]\<close> with the triple that
  \<^verbatim>\<open>_fit_surface_potential\<close> returns for chunk \<open>i\<close>, so the rows stand in increasing
  chunk order. The table is returned whenever the fit of every chunk returns.
\<close>

theorem fit_surface_potential_table:
  assumes "er_data f = Some d" and "0 < SWEEP_ROWS cfg"
  shows "(\<forall>tbl. fit_surface_potential ext cfg f = Inr tbl \<longrightarrow>
            length tbl = length d div SWEEP_ROWS cfg
            \<and> (\<forall>i < length tbl. \<exists>delta_U bs_over_bm chi2v.
                   fit_chunk ext cfg f (int i) = Inr (delta_U, bs_over_bm, chi2v)
                   \<and> tbl ! i = [delta_U, bs_over_bm, chi2v, Finite (real i)]))
       \<and> ((\<forall>i < length d div SWEEP_ROWS cfg. \<exists>t. fit_chunk ext cfg f (int i) = Inr t) \<longrightarrow>
            (\<exists>tbl. fit_surface_potential ext cfg f = Inr tbl))"
proof -
  define n where "n = length d div SWEEP_ROWS cfg"
  define zeros where "zeros = replicate n (replicate 4 (Finite 0))"
  have fsp: "fit_surface_potential ext cfg f = fit_loop ext cfg f [0 ..< n] zeros"
    using assms by (simp add: fit_surface_potential_def Let_def n_def zeros_def)
  have part1: "length tbl = n
      \<and> (\<forall>i < length tbl. \<exists>delta_U bs_over_bm chi2v.
             fit_chunk ext cfg f (int i) = Inr (delta_U, bs_over_bm, chi2v)
             \<and> tbl ! i = [delta_U, bs_over_bm, chi2v, Finite (real i)])"
    if r: "fit_surface_potential ext cfg f = Inr tbl" for tbl
  proof -
    from r fsp have loop: "fit_loop ext cfg f [0 ..< n] zeros = Inr tbl" by simp
    from fit_loop_Inr_all [OF loop]
    have ok: "\<forall>i \<in> set [0 ..< n]. \<exists>t. fit_chunk ext cfg f (int i) = Inr t" .
    let ?g = "\<lambda>i. case fit_chunk ext cfg f (int i) of
                     Inr (a, b, c) \<Rightarrow> [a, b, c, Finite (real i)] | Inl _ \<Rightarrow> []"
    from fit_loop_all_ok [OF ok, of zeros] loop
    have tbl: "tbl = fold (\<lambda>i r. r[i := ?g i]) [0 ..< n] zeros" by simp
    have "n \<le> length zeros" by (simp add: zeros_def)
    from fold_update_upt [OF this, of ?g]
    have len: "length tbl = n" and nth: "\<forall>i < n. tbl ! i = ?g i"
      by (simp_all add: tbl zeros_def)
    have "\<exists>delta_U bs_over_bm chi2v.
             fit_chunk ext cfg f (int i) = Inr (delta_U, bs_over_bm, chi2v)
             \<and> tbl ! i = [delta_U, bs_over_bm, chi2v, Finite (real i)]" if "i < n" for i
    proof -
      from ok that obtain a b c where "fit_chunk ext cfg f (int i) = Inr (a, b, c)"
        by (metis atLeast0LessThan lessThan_iff prod_cases3 set_upt)
      with nth that show ?thesis by simp
    qed
    with len show ?thesis by simp
  qed
  have part2: "\<exists>tbl. fit_surface_potential ext cfg f = Inr tbl"
    if "\<forall>i < n. \<exists>t. fit_chunk ext cfg f (int i) = Inr t"
  proof -
    from that have "\<forall>i \<in> set [0 ..< n]. \<exists>t. fit_chunk ext cfg f (int i) = Inr t" by simp
    from fit_loop_all_ok [OF this, of zeros] fsp show ?thesis by simp
  qed
  from part1 part2 show ?thesis unfolding n_def by blast
qed


lemma ex_flux_rows:
  "get_normalized_flux ex_cfg (ex_fitter ex_data ex_umf ex_tbl) 0 0 = Inr [Finite 1, Finite 1]"
  "get_normalized_flux ex_cfg (ex_fitter ex_data ex_umf ex_tbl) 0 1 = Inr [NaN, NaN]"
  by (simp_all add: get_normalized_flux_def ex_fitter_def ex_pitch_def ex_data_def ex_row_def
      ex_tbl_def ex_cfg_def py_index_def bool_index_def py_max_def np_mean_def fl_sum_def
      fl_gt_def Let_def)

lemma ex_build_norm2d:
  "build_norm2d ex_cfg (ex_fitter ex_data ex_umf ex_tbl) 0 = Inr [[Finite 1, Finite 1]]"
  "build_norm2d ex_cfg (ex_fitter ex_data ex_umf ex_tbl) 1 = Inr [[NaN, NaN]]"
proof -
  have e: "er_data (ex_fitter ex_data ex_umf ex_tbl) = Some ex_data"
    by (simp add: ex_fitter_def)
  have u: "[0 ..< SWEEP_ROWS ex_cfg] = [0]" by (simp add: ex_cfg_def)
  show "build_norm2d ex_cfg (ex_fitter ex_data ex_umf ex_tbl) 0 = Inr [[Finite 1, Finite 1]]"
    by (simp add: build_norm2d_def e u ex_flux_rows vstack_def)
  show "build_norm2d ex_cfg (ex_fitter ex_data ex_umf ex_tbl) 1 = Inr [[NaN, NaN]]"
    by (simp add: build_norm2d_def e u ex_flux_rows vstack_def)
qed

lemma ex_chi2:
  "chi2 (ex_ext ok) [Finite 10] [[Finite 0, Finite 180]] [[Finite 1, Finite 1]] params
   = Finite 0"
  by (simp add: chi2_def ex_ext_def fl_sum_def fl_sub_def Let_def)

lemma ex_fit_chunk_0:
  "fit_chunk (ex_ext ok) ex_cfg (ex_fitter ex_data ex_umf ex_tbl) 0
   = (if ok then Inr (Finite (- 500), Finite (13 / 40), Finite 0)
      else Inl (RuntimeError
        ''Optimisation failed: Maximum number of iterations has been exceeded.''))"
proof -
  have e: "er_data (ex_fitter ex_data ex_umf ex_tbl) = Some ex_data"
    "pitch_angles (pitch_angle (ex_fitter ex_data ex_umf ex_tbl)) = Some ex_tbl"
    "lhs (ex_fitter ex_data ex_umf ex_tbl) = [(Finite (- 500), Finite (13 / 40)), (Finite 500, Finite (31 / 40))]"
    by (simp_all add: ex_fitter_def ex_pitch_def)
  have sl: "py_slice (map energy ex_data) 0 1 = [Finite 10]"
    "py_slice ex_tbl 0 1 = [[Finite 0, Finite 180]]"
    by (simp_all add: py_slice_def slice_bound_def ex_data_def ex_row_def ex_tbl_def)
  have len: "length ex_data = 2" "length ex_tbl = 2" "SWEEP_ROWS ex_cfg = 1"
    by (simp_all add: ex_data_def ex_tbl_def ex_cfg_def)
  have mn: "minimize (ex_ext ok) objective x0 =
      \<lparr>res_success = ok,
       res_message = (if ok then ''Optimization terminated successfully.''
                      else ''Maximum number of iterations has been exceeded.''),
       res_x = x0, res_fun = objective x0\<rparr>" for objective x0
    by (simp add: ex_ext_def)
  show ?thesis
    by (simp add: fit_chunk_def e ex_build_norm2d len sl np_argmin_def mn ex_chi2 fl_ge_def
        Let_def)
qed

lemma ex_fit_chunk_1:
  "fit_chunk (ex_ext ok) ex_cfg (ex_fitter ex_data ex_umf ex_tbl) 1 = Inr (NaN, NaN, NaN)"
proof -
  have e: "er_data (ex_fitter ex_data ex_umf ex_tbl) = Some ex_data"
    by (simp add: ex_fitter_def)
  show ?thesis by (simp add: fit_chunk_def e ex_build_norm2d)
qed

text \<open>
  The example table has two rows and sweeps of one row, so two chunks: chunk 0 is
  fitted, chunk 1 has no incident channel and gives the NaN triple.
\<close>

theorem fit_surface_potential_table_witness:
  "fit_surface_potential (ex_ext True) ex_cfg (ex_fitter ex_data ex_umf ex_tbl)
   = Inr [[Finite (- 500), Finite (13 / 40), Finite 0, Finite 0], [NaN, NaN, NaN, Finite 1]]"
proof -
  have e: "er_data (ex_fitter ex_data ex_umf ex_tbl) = Some ex_data"
    by (simp add: ex_fitter_def)
  have sr: "0 < SWEEP_ROWS ex_cfg" by (simp add: ex_cfg_def)
  have n: "length ex_data div SWEEP_ROWS ex_cfg = 2" by (simp add: ex_data_def ex_cfg_def)
  have ok: "\<forall>i < length ex_data div SWEEP_ROWS ex_cfg.
      \<exists>t. fit_chunk (ex_ext True) ex_cfg (ex_fitter ex_data ex_umf ex_tbl) (int i) = Inr t"
  proof (intro allI impI)
    fix i assume "i < length ex_data div SWEEP_ROWS ex_cfg"
    with n have "i = 0 \<or> i = 1" by arith
    then show "\<exists>t. fit_chunk (ex_ext True) ex_cfg (ex_fitter ex_data ex_umf ex_tbl) (int i) = Inr t"
      using ex_fit_chunk_0 [of True] ex_fit_chunk_1 [of True] by auto
  qed
  note t = fit_surface_potential_table [OF e sr, of "ex_ext True"]
  from t ok obtain tbl
    where tbl: "fit_surface_potential (ex_ext True) ex_cfg (ex_fitter ex_data ex_umf ex_tbl) = Inr tbl"
    by blast
  with t n have len: "length tbl = 2"
    and rows: "\<forall>i < length tbl. \<exists>delta_U bs_over_bm chi2v.
        fit_chunk (ex_ext True) ex_cfg (ex_fitter ex_data ex_umf ex_tbl) (int i)
          = Inr (delta_U, bs_over_bm, chi2v)
        \<and> tbl ! i = [delta_U, bs_over_bm, chi2v, Finite (real i)]"
    by auto
  have "tbl ! 0 = [Finite (- 500), Finite (13 / 40), Finite 0, Finite 0]"
  proof -
    from len have "0 < length tbl" by simp
    from rows [rule_format, OF this] obtain a b c
      where "fit_chunk (ex_ext True) ex_cfg (ex_fitter ex_data ex_umf ex_tbl) (int 0) = Inr (a, b, c)"
        and "tbl ! 0 = [a, b, c, Finite (real (0::nat))]" by blast
    with ex_fit_chunk_0 [of True] show ?thesis by auto
  qed
  moreover have "tbl ! 1 = [NaN, NaN, NaN, Finite 1]"
  proof -
    from len have "1 < length tbl" by simp
    from rows [rule_format, OF this] obtain a b c
      where "fit_chunk (ex_ext True) ex_cfg (ex_fitter ex_data ex_umf ex_tbl) (int 1) = Inr (a, b, c)"
        and "tbl ! 1 = [a, b, c, Finite (real (1::nat))]" by blast
    with ex_fit_chunk_1 [of True] show ?thesis by auto
  qed
  ultimately have "tbl = [[Finite (- 500), Finite (13 / 40), Finite 0, Finite 0], [NaN, NaN, NaN, Finite 1]]"
    using len by (intro nth_equalityI) (auto simp: less_Suc_eq numeral_2_eq_2)
  with tbl show ?thesis by simp
qed

lemma collect_all_Inr:
  "\<forall>x \<in> set xs. g x = Inr (h x) \<Longrightarrow> collect (map g xs) = Inr (map h xs)"
  by (induction xs) simp_all

lemma get_normalized_flux_beyond:
  assumes "er_data f = Some d"
    and "int (length d) \<le> measurement_chunk * int (SWEEP_ROWS cfg) + energy_bin"
  shows "get_normalized_flux cfg f energy_bin measurement_chunk
         = Inr (replicate (CHANNELS cfg) NaN)"
  using assms by (simp add: get_normalized_flux_def Let_def)

lemma build_norm2d_beyond:
  assumes "er_data f = Some d" and "0 < SWEEP_ROWS cfg"
    and "int (length d) \<le> measurement_chunk * int (SWEEP_ROWS cfg)"
  shows "build_norm2d cfg f measurement_chunk
         = Inr (replicate (SWEEP_ROWS cfg) (replicate (CHANNELS cfg) NaN))"
proof -
  have "collect (map (\<lambda>energy_bin. get_normalized_flux cfg f (int energy_bin) measurement_chunk)
                   [0 ..< SWEEP_ROWS cfg])
        = Inr (map (\<lambda>_. replicate (CHANNELS cfg) NaN) [0 ..< SWEEP_ROWS cfg])"
    using assms(3) by (intro collect_all_Inr ballI get_normalized_flux_beyond [OF assms(1)]) simp
  moreover have "map (\<lambda>_. replicate (CHANNELS cfg) NaN) [0 ..< SWEEP_ROWS cfg]
      = replicate (SWEEP_ROWS cfg) (replicate (CHANNELS cfg) NaN)"
    by (simp add: map_replicate_const)
  moreover have "vstack (replicate (SWEEP_ROWS cfg) (replicate (CHANNELS cfg) NaN))
      = Inr (replicate (SWEEP_ROWS cfg) (replicate (CHANNELS cfg) NaN))"
    using assms(2) by (cases "SWEEP_ROWS cfg") (simp_all add: vstack_def list_all_iff)
  ultimately show ?thesis using assms(1) by (simp add: build_norm2d_def)
qed

lemma all_nan_matrix: "list_all fl_isnan (concat (replicate n (replicate c NaN)))"
  by (induction n) (auto simp: list_all_iff)

lemma build_norm2d_loaded: "build_norm2d cfg f chunk = Inr m \<Longrightarrow> \<exists>d. er_data f = Some d"
  by (cases "er_data f") (simp_all add: build_norm2d_def)

lemma fit_chunk_all_nan:
  assumes "build_norm2d cfg f chunk = Inr m" and "list_all fl_isnan (concat m)"
  shows "fit_chunk ext cfg f chunk = Inr (NaN, NaN, NaN)"
proof -
  from build_norm2d_loaded [OF assms(1)] obtain d where "er_data f = Some d" by blast
  with assms show ?thesis by (simp add: fit_chunk_def)
qed

lemma np_argmin_nonempty: "xs \<noteq> [] \<Longrightarrow> \<exists>k. np_argmin xs = Inr k"
  by (cases xs) (simp_all add: np_argmin_def)

lemma fit_chunk_optimiser:
  assumes "er_data f = Some d" and "pitch_angles (pitch_angle f) = Some tbl"
    and "length tbl = length d"
    and "build_norm2d cfg f chunk = Inr m" and "\<not> list_all fl_isnan (concat m)"
    and "chunk * int (SWEEP_ROWS cfg) < int (length d)" and "lhs f \<noteq> []"
  shows "let s = chunk * int (SWEEP_ROWS cfg);
             e = min ((chunk + 1) * int (SWEEP_ROWS cfg)) (int (length d));
             energies = py_slice (map energy d) s e;
             pitches = py_slice tbl s e;
             norm2d = (if int (length m) > e - s then py_slice m 0 (e - s) else m);
             objective = chi2 ext energies pitches norm2d
         in \<exists>best_idx. np_argmin (map objective (lhs f)) = Inr best_idx
              \<and> (let result = minimize ext objective (lhs f ! best_idx)
                 in fit_chunk ext cfg f chunk =
                      (if res_success result
                       then Inr (fst (res_x result), snd (res_x result), res_fun result)
                       else Inl (RuntimeError (''Optimisation failed: '' @ res_message result))))"
proof -
  define s where "s = chunk * int (SWEEP_ROWS cfg)"
  define e where "e = min ((chunk + 1) * int (SWEEP_ROWS cfg)) (int (length d))"
  define norm2d where "norm2d = (if int (length m) > e - s then py_slice m 0 (e - s) else m)"
  define objective where
    "objective = chi2 ext (py_slice (map energy d) s e) (py_slice tbl s e) norm2d"
  from assms(7) have "map objective (lhs f) \<noteq> []" by simp
  from np_argmin_nonempty [OF this] obtain k where k: "np_argmin (map objective (lhs f)) = Inr k"
    by blast
  have "fit_chunk ext cfg f chunk =
      (if res_success (minimize ext objective (lhs f ! k))
       then Inr (fst (res_x (minimize ext objective (lhs f ! k))),
                 snd (res_x (minimize ext objective (lhs f ! k))),
                 res_fun (minimize ext objective (lhs f ! k)))
       else Inl (RuntimeError (''Optimisation failed: ''
                   @ res_message (minimize ext objective (lhs f ! k)))))"
    using assms k
    by (simp add: fit_chunk_def Let_def s_def [symmetric] e_def [symmetric]
        norm2d_def [symmetric] objective_def [symmetric])
  with k show ?thesis
    unfolding Let_def s_def [symmetric] e_def [symmetric] norm2d_def [symmetric]
      objective_def [symmetric]
    by blast
qed

lemma fit_surface_potential_propagates:
  assumes "er_data f = Some d" and "0 < SWEEP_ROWS cfg"
    and "i < length d div SWEEP_ROWS cfg"
    and "\<forall>j < i. \<exists>t. fit_chunk ext cfg f (int j) = Inr t"
    and "fit_chunk ext cfg f (int i) = Inl e"
  shows "fit_surface_potential ext cfg f = Inl e"
proof -
  define n where "n = length d div SWEEP_ROWS cfg"
  from assms(3) have "[0 ..< n] = [0 ..< i] @ i # [Suc i ..< n]"
  proof -
    from assms(3) have "i < n" by (simp add: n_def)
    then have "[0 ..< n] = [0 ..< i] @ [i ..< n]"
      using upt_add_eq_append [of 0 i "n - i"] by simp
    also from \<open>i < n\<close> have "[i ..< n] = i # [Suc i ..< n]" by (rule upt_conv_Cons)
    finally show ?thesis .
  qed
  moreover have "\<forall>j \<in> set [0 ..< i]. \<exists>t. fit_chunk ext cfg f (int j) = Inr t"
    using assms(4) by simp
  ultimately have "fit_loop ext cfg f [0 ..< n] results = Inl e" for results
    using fit_loop_first_error [OF _ assms(5)] by simp
  with assms(1,2) show ?thesis
    by (simp add: fit_surface_potential_def Let_def n_def)
qed


text \<open>
  Claim C6. The two failure modes of \<^verbatim>\<open>_fit_surface_potential\<close> on a constructed
  fitter. (1) A chunk whose normalised-flux matrix is all NaN gives the triple
  (NaN, NaN, NaN) and no exception; (2) so does, in particular, a chunk that starts at
  or beyond the end of the table. (3) A chunk with data reaches the local minimiser,
  started at the best point of the global scan: when the minimiser reports success the
  triple of its result is returned, and when it does not, the function raises
  RuntimeError with the solver's message, not a NaN triple. (4)
  \<^verbatim>\<open>fit_surface_potential\<close> does not catch the exception: the error of the first
  failing chunk is its outcome.
\<close>

theorem fit_chunk_failure_modes:
  assumes "LossConeFitter_init ext entropy cfg (Some d) thetas_deg = Inr f"
    and "pitch_angles (pitch_angle f) = Some tbl"
  shows "(\<forall>m. build_norm2d cfg f chunk = Inr m \<and> list_all fl_isnan (concat m) \<longrightarrow>
            fit_chunk ext cfg f chunk = Inr (NaN, NaN, NaN))
       \<and> (0 < SWEEP_ROWS cfg \<and> int (length d) \<le> chunk * int (SWEEP_ROWS cfg) \<longrightarrow>
            fit_chunk ext cfg f chunk = Inr (NaN, NaN, NaN))
       \<and> (\<forall>m. build_norm2d cfg f chunk = Inr m \<and> \<not> list_all fl_isnan (concat m)
              \<and> chunk * int (SWEEP_ROWS cfg) < int (length d) \<and> lhs f \<noteq> [] \<longrightarrow>
            (let s = chunk * int (SWEEP_ROWS cfg);
                 e = min ((chunk + 1) * int (SWEEP_ROWS cfg)) (int (length d));
                 energies = py_slice (map energy d) s e;
                 pitches = py_slice tbl s e;
                 norm2d = (if int (length m) > e - s then py_slice m 0 (e - s) else m);
                 objective = chi2 ext energies pitches norm2d
             in \<exists>best_idx. np_argmin (map objective (lhs f)) = Inr best_idx
                  \<and> (let result = minimize ext objective (lhs f ! best_idx)
                     in fit_chunk ext cfg f chunk =
                          (if res_success result
                           then Inr (fst (res_x result), snd (res_x result), res_fun result)
                           else Inl (RuntimeError
                                  (''Optimisation failed: '' @ res_message result))))))
       \<and> (\<forall>i err. 0 < SWEEP_ROWS cfg \<and> i < length d div SWEEP_ROWS cfg
              \<and> (\<forall>j < i. \<exists>t. fit_chunk ext cfg f (int j) = Inr t)
              \<and> fit_chunk ext cfg f (int i) = Inl err \<longrightarrow>
            fit_surface_potential ext cfg f = Inl err)"
proof -
  note ed = LossConeFitter_init_fields(1) [OF assms(1)]
  from fitter_table [OF assms(1)] assms(2) have len: "length tbl = length d" by auto
  have a: "\<forall>m. build_norm2d cfg f chunk = Inr m \<and> list_all fl_isnan (concat m) \<longrightarrow>
            fit_chunk ext cfg f chunk = Inr (NaN, NaN, NaN)"
    using fit_chunk_all_nan by blast
  have b: "0 < SWEEP_ROWS cfg \<and> int (length d) \<le> chunk * int (SWEEP_ROWS cfg) \<longrightarrow>
            fit_chunk ext cfg f chunk = Inr (NaN, NaN, NaN)"
    using fit_chunk_all_nan [OF build_norm2d_beyond [OF ed] all_nan_matrix] by blast
  have c: "\<forall>m. build_norm2d cfg f chunk = Inr m \<and> \<not> list_all fl_isnan (concat m)
              \<and> chunk * int (SWEEP_ROWS cfg) < int (length d) \<and> lhs f \<noteq> [] \<longrightarrow>
            (let s = chunk * int (SWEEP_ROWS cfg);
                 e = min ((chunk + 1) * int (SWEEP_ROWS cfg)) (int (length d));
                 energies = py_slice (map energy d) s e;
                 pitches = py_slice tbl s e;
                 norm2d = (if int (length m) > e - s then py_slice m 0 (e - s) else m);
                 objective = chi2 ext energies pitches norm2d
             in \<exists>best_idx. np_argmin (map objective (lhs f)) = Inr best_idx
                  \<and> (let result = minimize ext objective (lhs f ! best_idx)
                     in fit_chunk ext cfg f chunk =
                          (if res_success result
                           then Inr (fst (res_x result), snd (res_x result), res_fun result)
                           else Inl (RuntimeError
                                  (''Optimisation failed: '' @ res_message result)))))"
    using fit_chunk_optimiser [OF ed assms(2) len] by blast
  have d: "\<forall>i err. 0 < SWEEP_ROWS cfg \<and> i < length d div SWEEP_ROWS cfg
              \<and> (\<forall>j < i. \<exists>t. fit_chunk ext cfg f (int j) = Inr t)
              \<and> fit_chunk ext cfg f (int i) = Inl err \<longrightarrow>
            fit_surface_potential ext cfg f = Inl err"
    using fit_surface_potential_propagates [OF ed] by blast
  from a b c d show ?thesis by (intro conjI)
qed

text \<open>
  The example with a minimiser that reports failure: chunk 5 lies beyond the table and
  chunk 1 has no incident channel (NaN triples), chunk 0 has data and raises, and so
  does the fit of all chunks.
\<close>

theorem fit_chunk_failure_modes_witness:
  "fit_chunk (ex_ext False) ex_cfg (ex_fitter ex_data ex_umf ex_tbl) 5 = Inr (NaN, NaN, NaN)
   \<and> fit_chunk (ex_ext False) ex_cfg (ex_fitter ex_data ex_umf ex_tbl) 1 = Inr (NaN, NaN, NaN)
   \<and> fit_chunk (ex_ext False) ex_cfg (ex_fitter ex_data ex_umf ex_tbl) 0
       = Inl (RuntimeError
           ''Optimisation failed: Maximum number of iterations has been exceeded.'')
   \<and> fit_surface_potential (ex_ext False) ex_cfg (ex_fitter ex_data ex_umf ex_tbl)
       = Inl (RuntimeError
           ''Optimisation failed: Maximum number of iterations has been exceeded.'')"
proof -
  have tbl: "pitch_angles (pitch_angle (ex_fitter ex_data ex_umf ex_tbl)) = Some ex_tbl"
    by (simp add: ex_fitter_def ex_pitch_def)
  note inst = fit_chunk_failure_modes [OF ex_LossConeFitter_init [of False] tbl]
  have c0: "fit_chunk (ex_ext False) ex_cfg (ex_fitter ex_data ex_umf ex_tbl) 0
       = Inl (RuntimeError
           ''Optimisation failed: Maximum number of iterations has been exceeded.'')"
    using ex_fit_chunk_0 [of False] by simp
  have far: "fit_chunk (ex_ext False) ex_cfg (ex_fitter ex_data ex_umf ex_tbl) 5
      = Inr (NaN, NaN, NaN)"
    using inst [of 5] by (simp add: ex_cfg_def ex_data_def)
  have "0 < SWEEP_ROWS ex_cfg \<and> 0 < length ex_data div SWEEP_ROWS ex_cfg
      \<and> (\<forall>j < (0::nat). \<exists>t. fit_chunk (ex_ext False) ex_cfg
             (ex_fitter ex_data ex_umf ex_tbl) (int j) = Inr t)
      \<and> fit_chunk (ex_ext False) ex_cfg (ex_fitter ex_data ex_umf ex_tbl) (int 0)
         = Inl (RuntimeError
           ''Optimisation failed: Maximum number of iterations has been exceeded.'')"
    using c0 by (simp add: ex_cfg_def ex_data_def)
  with inst [of 0] have all: "fit_surface_potential (ex_ext False) ex_cfg
      (ex_fitter ex_data ex_umf ex_tbl)
       = Inl (RuntimeError
           ''Optimisation failed: Maximum number of iterations has been exceeded.'')"
    by blast
  from far ex_fit_chunk_1 [of False] c0 all show ?thesis by simp
qed

section \<open>What a successful fit returns\<close>

lemma fl_le_zero_finite: "fl_le (Finite 0) (Finite b) \<longleftrightarrow> 0 \<le> b"
  by auto

lemma square_nonneg_or_nan: "nonneg_or_nan (fl_mul a a)"
proof (cases a)
  case (Finite b)
  have "0 \<le> b * b" by simp
  with Finite show ?thesis
    unfolding nonneg_or_nan_def by (simp only: fl_mul.simps fl_le_zero_finite simp_thms)
qed (simp_all add: nonneg_or_nan_def signed_inf_def)

lemma add_nonneg_or_nan:
  "nonneg_or_nan a \<Longrightarrow> nonneg_or_nan b \<Longrightarrow> nonneg_or_nan (fl_add a b)"
  by (cases a; cases b) (auto simp: nonneg_or_nan_def)

lemma foldl_nonneg_or_nan:
  "nonneg_or_nan a \<Longrightarrow> list_all nonneg_or_nan xs \<Longrightarrow> nonneg_or_nan (foldl fl_add a xs)"
  by (induction xs arbitrary: a) (simp_all add: add_nonneg_or_nan)

lemma chi2_nonneg_or_nan: "nonneg_or_nan (chi2 ext energies pitches norm2d params)"
proof -
  have "nonneg_or_nan (fl_sum (map (\<lambda>df. fl_mul df df) xs))" for xs
    unfolding fl_sum_def
    by (rule foldl_nonneg_or_nan)
       (simp_all add: nonneg_or_nan_def list_all_iff square_nonneg_or_nan [unfolded nonneg_or_nan_def])
  moreover have "nonneg_or_nan (Finite (10 ^ 30))" by (simp add: nonneg_or_nan_def)
  ultimately show ?thesis by (simp add: chi2_def Let_def)
qed

lemma argmin_loop_bound:
  "best < i \<Longrightarrow> argmin_loop as i mp best < i + length as"
proof (induction as arbitrary: i mp best)
  case Nil
  then show ?case by simp
next
  case (Cons a as)
  have "argmin_loop as (Suc i) a i < Suc i + length as" by (rule Cons.IH) simp
  moreover have "argmin_loop as (Suc i) mp best < Suc i + length as"
    by (rule Cons.IH) (use Cons.prems in simp)
  ultimately show ?case using Cons.prems by simp
qed

lemma np_argmin_bound: "np_argmin xs = Inr k \<Longrightarrow> k < length xs"
  using argmin_loop_bound [of 0 1] by (cases xs) (auto simp: np_argmin_def)

lemma fit_chunk_reaches_optimiser:
  assumes "er_data f = Some d" and "pitch_angles (pitch_angle f) = Some tbl"
    and "fit_chunk ext cfg f chunk = Inr t" and "t \<noteq> (NaN, NaN, NaN)"
  shows "\<exists>m. build_norm2d cfg f chunk = Inr m \<and> \<not> list_all fl_isnan (concat m)
             \<and> chunk * int (SWEEP_ROWS cfg) < int (length d) \<and> lhs f \<noteq> []"
  using assms
  by (auto simp: fit_chunk_def Let_def split: sum.splits if_splits)

text \<open>
  Claim C8, as amended. When \<^verbatim>\<open>_fit_surface_potential\<close> returns a triple other than
  the NaN triple, the triple is \<open>(result.x[0], result.x[1], result.fun)\<close> of a successful
  run of the local minimiser on the objective \<^verbatim>\<open>chi2\<close> of the chunk's own energies,
  pitch angles and normalised flux, started at the point of the stored global-scan
  sample that \<^verbatim>\<open>np.argmin\<close> selects, and the returned \<open>\<chi>\<^sup>2\<close> is \<open>\<ge> 0\<close>. The external
  minimiser is assumed to report, when it succeeds, the value of the objective at the
  point it returns, which is what scipy documents for \<^verbatim>\<open>result.fun\<close>, and not NaN.
  The code passes no bounds to the minimiser and does not clamp its result, so nothing
  is said of the box.
\<close>

theorem fit_chunk_success_value:
  assumes "LossConeFitter_init ext entropy cfg (Some d) thetas_deg = Inr f"
    and "pitch_angles (pitch_angle f) = Some tbl"
    and "fit_chunk ext cfg f chunk = Inr (delta_U, bs_over_bm, chi2v)"
    and "(delta_U, bs_over_bm, chi2v) \<noteq> (NaN, NaN, NaN)"
    and "build_norm2d cfg f chunk = Inr m"
    and "s = chunk * int (SWEEP_ROWS cfg)"
    and "e = min ((chunk + 1) * int (SWEEP_ROWS cfg)) (int (length d))"
    and "objective = chi2 ext (py_slice (map energy d) s e) (py_slice tbl s e)
                       (if int (length m) > e - s then py_slice m 0 (e - s) else m)"
    and "\<And>x0. res_success (minimize ext objective x0) \<Longrightarrow>
           res_fun (minimize ext objective x0) = objective (res_x (minimize ext objective x0))
           \<and> res_fun (minimize ext objective x0) \<noteq> NaN"
  shows "\<exists>best_idx. np_argmin (map objective (lhs f)) = Inr best_idx
           \<and> best_idx < length (lhs f)
           \<and> res_success (minimize ext objective (lhs f ! best_idx))
           \<and> (delta_U, bs_over_bm) = res_x (minimize ext objective (lhs f ! best_idx))
           \<and> chi2v = res_fun (minimize ext objective (lhs f ! best_idx))
           \<and> chi2v = objective (delta_U, bs_over_bm)
           \<and> fl_le (Finite 0) chi2v"
proof -
  note ed = LossConeFitter_init_fields(1) [OF assms(1)]
  from fitter_table [OF assms(1)] assms(2) have len: "length tbl = length d" by auto
  from fit_chunk_reaches_optimiser [OF ed assms(2,3,4)] assms(5)
  have m: "build_norm2d cfg f chunk = Inr m" "\<not> list_all fl_isnan (concat m)"
      "chunk * int (SWEEP_ROWS cfg) < int (length d)" "lhs f \<noteq> []"
    by auto
  from fit_chunk_optimiser [OF ed assms(2) len m, of ext] obtain k
    where k: "np_argmin (map objective (lhs f)) = Inr k"
      and r: "fit_chunk ext cfg f chunk =
        (if res_success (minimize ext objective (lhs f ! k))
         then Inr (fst (res_x (minimize ext objective (lhs f ! k))),
                   snd (res_x (minimize ext objective (lhs f ! k))),
                   res_fun (minimize ext objective (lhs f ! k)))
         else Inl (RuntimeError (''Optimisation failed: ''
                     @ res_message (minimize ext objective (lhs f ! k)))))"
    unfolding Let_def assms(6) [symmetric] assms(7) [symmetric] assms(8) [symmetric]
    by blast
  let ?result = "minimize ext objective (lhs f ! k)"
  from r assms(3) have ok: "res_success ?result"
    and x: "(delta_U, bs_over_bm) = res_x ?result" and c: "chi2v = res_fun ?result"
    by (auto split: if_splits)
  from np_argmin_bound [OF k] have kb: "k < length (lhs f)" by simp
  from assms(9) [OF ok] x c have v: "chi2v = objective (delta_U, bs_over_bm)"
    and nn: "chi2v \<noteq> NaN" by metis+
  have "nonneg_or_nan (objective (delta_U, bs_over_bm))"
    unfolding assms(8) by (rule chi2_nonneg_or_nan)
  with v nn have "fl_le (Finite 0) chi2v" by (simp add: nonneg_or_nan_def)
  with k kb ok x c v show ?thesis by blast
qed

lemma ex_fit_chunk_far:
  "fit_chunk ex_ext_far ex_cfg (ex_fitter ex_data ex_umf ex_tbl) 0
   = Inr (Finite 2000, Finite 5, Finite 0)"
proof -
  have e: "er_data (ex_fitter ex_data ex_umf ex_tbl) = Some ex_data"
    "pitch_angles (pitch_angle (ex_fitter ex_data ex_umf ex_tbl)) = Some ex_tbl"
    "lhs (ex_fitter ex_data ex_umf ex_tbl) = [(Finite (- 500), Finite (13 / 40)), (Finite 500, Finite (31 / 40))]"
    by (simp_all add: ex_fitter_def ex_pitch_def)
  have sl: "py_slice (map energy ex_data) 0 1 = [Finite 10]"
    "py_slice ex_tbl 0 1 = [[Finite 0, Finite 180]]"
    by (simp_all add: py_slice_def slice_bound_def ex_data_def ex_row_def ex_tbl_def)
  have len: "length ex_data = 2" "length ex_tbl = 2" "SWEEP_ROWS ex_cfg = 1"
    by (simp_all add: ex_data_def ex_tbl_def ex_cfg_def)
  have mn: "minimize ex_ext_far objective x0 =
      \<lparr>res_success = True, res_message = ''Optimization terminated successfully.'',
       res_x = (Finite 2000, Finite 5), res_fun = objective (Finite 2000, Finite 5)\<rparr>"
    for objective x0
    by (simp add: ex_ext_far_def)
  have c: "chi2 ex_ext_far [Finite 10] [[Finite 0, Finite 180]] [[Finite 1, Finite 1]] params
      = Finite 0" for params
    by (simp add: chi2_def ex_ext_far_def ex_ext_def fl_sum_def fl_sub_def Let_def)
  show ?thesis
    by (simp add: fit_chunk_def e ex_build_norm2d len sl np_argmin_def mn c fl_ge_def Let_def)
qed

lemma ex_init_far:
  "LossConeFitter_init ex_ext_far 0 ex_cfg (Some ex_data) [Finite 0, Finite 0]
   = Inr (ex_fitter ex_data ex_umf ex_tbl)"
proof -
  have "generate_latin_hypercube ex_ext_far 0 = [(Finite (- 500), Finite (13 / 40)), (Finite 500, Finite (31 / 40))]"
    by (simp add: generate_latin_hypercube_def ex_ext_far_def ex_ext_def fl_sub_def Let_def)
  then show ?thesis
    by (simp add: LossConeFitter_init_def ex_PitchAngle_init ex_fitter_def ex_umf_def
        ex_tbl_def)
qed

text \<open>
  Claim C8 as stated (the fitted \<open>\<Delta>U\<close> in [-1000, 1000] and \<open>B\<^sub>s/B\<^sub>m\<close> in [0.1, 1])
  fails when the minimiser ends outside the box: its point is returned as it is.
\<close>

theorem fit_chunk_unbounded_counterexample:
  "LossConeFitter_init ex_ext_far 0 ex_cfg (Some ex_data) [Finite 0, Finite 0]
     = Inr (ex_fitter ex_data ex_umf ex_tbl)
   \<and> fit_chunk ex_ext_far ex_cfg (ex_fitter ex_data ex_umf ex_tbl) 0
     = Inr (Finite 2000, Finite 5, Finite 0)
   \<and> \<not> fl_le (Finite 2000) (Finite 1000)
   \<and> \<not> fl_le (Finite 5) (Finite 1)"
  by (simp add: ex_init_far ex_fit_chunk_far)

text \<open>
  Chunk 0 of the example, with the minimiser that stays at its start point
  (-500, 0.325) and reports the objective's value 0 there.
\<close>

theorem fit_chunk_success_value_witness:
  "fit_chunk (ex_ext True) ex_cfg (ex_fitter ex_data ex_umf ex_tbl) 0
     = Inr (Finite (- 500), Finite (13 / 40), Finite 0)
   \<and> build_norm2d ex_cfg (ex_fitter ex_data ex_umf ex_tbl) 0 = Inr [[Finite 1, Finite 1]]
   \<and> res_fun (minimize (ex_ext True)
        (chi2 (ex_ext True) [Finite 10] [[Finite 0, Finite 180]] [[Finite 1, Finite 1]])
        (Finite (- 500), Finite (13 / 40)))
     = chi2 (ex_ext True) [Finite 10] [[Finite 0, Finite 180]] [[Finite 1, Finite 1]]
         (Finite (- 500), Finite (13 / 40))
   \<and> fl_le (Finite 0) (Finite 0)"
proof -
  let ?objective =
    "chi2 (ex_ext True) [Finite 10] [[Finite 0, Finite 180]] [[Finite 1, Finite 1]]"
  have tbl: "pitch_angles (pitch_angle (ex_fitter ex_data ex_umf ex_tbl)) = Some ex_tbl"
    by (simp add: ex_fitter_def ex_pitch_def)
  have c: "fit_chunk (ex_ext True) ex_cfg (ex_fitter ex_data ex_umf ex_tbl) 0
     = Inr (Finite (- 500), Finite (13 / 40), Finite 0)"
    using ex_fit_chunk_0 [of True] by simp
  have n: "(Finite (- 500), Finite (13 / 40), Finite 0) \<noteq> (NaN, NaN, NaN)" by simp
  have s: "(0::int) = 0 * int (SWEEP_ROWS ex_cfg)" by simp
  have e: "(1::int) = min ((0 + 1) * int (SWEEP_ROWS ex_cfg)) (int (length ex_data))"
    by (simp add: ex_cfg_def ex_data_def)
  have ob: "?objective = chi2 (ex_ext True) (py_slice (map energy ex_data) 0 1)
      (py_slice ex_tbl 0 1)
      (if int (length [[Finite 1, Finite 1 :: float64]]) > 1 - 0
       then py_slice [[Finite 1, Finite 1]] 0 (1 - 0) else [[Finite 1, Finite 1]])"
    by (simp add: py_slice_def slice_bound_def ex_data_def ex_row_def ex_tbl_def)
  have mn: "minimize (ex_ext True) objective x0 =
      \<lparr>res_success = True, res_message = ''Optimization terminated successfully.'',
       res_x = x0, res_fun = objective x0\<rparr>" for objective x0
    by (simp add: ex_ext_def)
  have contract: "res_fun (minimize (ex_ext True) ?objective x0)
        = ?objective (res_x (minimize (ex_ext True) ?objective x0))
      \<and> res_fun (minimize (ex_ext True) ?objective x0) \<noteq> NaN" for x0
    by (simp add: mn ex_chi2)
  from fit_chunk_success_value
    [OF ex_LossConeFitter_init [of True] tbl c n ex_build_norm2d(1) s e ob contract]
  show ?thesis
    using c ex_build_norm2d(1) by (simp add: mn)
qed

section \<open>Reproducibility of the fits\<close>

lemma chi2_model_only:
  "synth_losscone ext' = synth_losscone ext \<Longrightarrow> chi2 ext' = chi2 ext"
  by (intro ext) (simp add: chi2_def)

lemma fit_chunk_sampler_free:
  assumes "synth_losscone ext' = synth_losscone ext" and "minimize ext' = minimize ext"
  shows "fit_chunk ext' cfg f chunk = fit_chunk ext cfg f chunk"
  unfolding fit_chunk_def chi2_model_only [OF assms(1)] assms(2) ..

lemma fit_loop_sampler_free:
  assumes "synth_losscone ext' = synth_losscone ext" and "minimize ext' = minimize ext"
  shows "fit_loop ext' cfg f js results = fit_loop ext cfg f js results"
proof (induction js arbitrary: results)
  case Nil
  then show ?case by simp
next
  case (Cons i js)
  then show ?case
    by (simp add: fit_chunk_sampler_free [OF assms] split: sum.splits prod.splits)
qed

lemma fit_loop_sampler_free_fun:
  assumes "synth_losscone ext' = synth_losscone ext" and "minimize ext' = minimize ext"
  shows "fit_loop ext' cfg f = fit_loop ext cfg f"
  by (intro ext) (rule fit_loop_sampler_free [OF assms])

text \<open>
  Claim C9, as amended. The global-scan sample of a fitter is the one its constructor
  generated, and it is reused by every chunk fit: the fit of a chunk and the fit of all
  chunks do not call the sampler (they give the same results under any other sampler,
  once the fitter is built), and every successful chunk fit scans that stored sample
  and starts the local minimiser at one of its points.
\<close>

theorem fit_reuses_stored_sample:
  assumes "LossConeFitter_init ext entropy cfg (Some d) thetas_deg = Inr f"
    and "pitch_angles (pitch_angle f) = Some tbl"
    and "synth_losscone ext' = synth_losscone ext" and "minimize ext' = minimize ext"
  shows "lhs f = generate_latin_hypercube ext entropy
     \<and> (\<forall>chunk. fit_chunk ext' cfg f chunk = fit_chunk ext cfg f chunk)
     \<and> fit_surface_potential ext' cfg f = fit_surface_potential ext cfg f
     \<and> (\<forall>chunk t. fit_chunk ext cfg f chunk = Inr t \<and> t \<noteq> (NaN, NaN, NaN) \<longrightarrow>
          (\<exists>m best_idx. build_norm2d cfg f chunk = Inr m
             \<and> (let s = chunk * int (SWEEP_ROWS cfg);
                    e = min ((chunk + 1) * int (SWEEP_ROWS cfg)) (int (length d));
                    energies = py_slice (map energy d) s e;
                    pitches = py_slice tbl s e;
                    norm2d = (if int (length m) > e - s then py_slice m 0 (e - s) else m);
                    objective = chi2 ext energies pitches norm2d
                in np_argmin (map objective (generate_latin_hypercube ext entropy))
                     = Inr best_idx
                   \<and> best_idx < length (generate_latin_hypercube ext entropy)
                   \<and> (fst t, fst (snd t))
                       = res_x (minimize ext objective
                                  (generate_latin_hypercube ext entropy ! best_idx)))))"
proof -
  note l = LossConeFitter_init_fields(3) [OF assms(1)]
  note ed = LossConeFitter_init_fields(1) [OF assms(1)]
  from fitter_table [OF assms(1)] assms(2) have len: "length tbl = length d" by auto
  have a: "\<forall>chunk. fit_chunk ext' cfg f chunk = fit_chunk ext cfg f chunk"
    using fit_chunk_sampler_free [OF assms(3,4)] by blast
  have b: "fit_surface_potential ext' cfg f = fit_surface_potential ext cfg f"
    unfolding fit_surface_potential_def fit_loop_sampler_free_fun [OF assms(3,4)] ..
  have c: "\<exists>m best_idx. build_norm2d cfg f chunk = Inr m
             \<and> (let s = chunk * int (SWEEP_ROWS cfg);
                    e = min ((chunk + 1) * int (SWEEP_ROWS cfg)) (int (length d));
                    energies = py_slice (map energy d) s e;
                    pitches = py_slice tbl s e;
                    norm2d = (if int (length m) > e - s then py_slice m 0 (e - s) else m);
                    objective = chi2 ext energies pitches norm2d
                in np_argmin (map objective (generate_latin_hypercube ext entropy))
                     = Inr best_idx
                   \<and> best_idx < length (generate_latin_hypercube ext entropy)
                   \<and> (fst t, fst (snd t))
                       = res_x (minimize ext objective
                                  (generate_latin_hypercube ext entropy ! best_idx)))"
    if t: "fit_chunk ext cfg f chunk = Inr t" "t \<noteq> (NaN, NaN, NaN)" for chunk t
  proof -
    from fit_chunk_reaches_optimiser [OF ed assms(2) t] obtain m
      where m: "build_norm2d cfg f chunk = Inr m" "\<not> list_all fl_isnan (concat m)"
        "chunk * int (SWEEP_ROWS cfg) < int (length d)" "lhs f \<noteq> []"
      by blast
    let ?s = "chunk * int (SWEEP_ROWS cfg)"
    let ?e = "min ((chunk + 1) * int (SWEEP_ROWS cfg)) (int (length d))"
    let ?norm2d = "if int (length m) > ?e - ?s then py_slice m 0 (?e - ?s) else m"
    let ?objective = "chi2 ext (py_slice (map energy d) ?s ?e) (py_slice tbl ?s ?e) ?norm2d"
    from fit_chunk_optimiser [OF ed assms(2) len m, of ext] obtain k
      where k: "np_argmin (map ?objective (lhs f)) = Inr k"
        and r: "fit_chunk ext cfg f chunk =
          (if res_success (minimize ext ?objective (lhs f ! k))
           then Inr (fst (res_x (minimize ext ?objective (lhs f ! k))),
                     snd (res_x (minimize ext ?objective (lhs f ! k))),
                     res_fun (minimize ext ?objective (lhs f ! k)))
           else Inl (RuntimeError (''Optimisation failed: ''
                       @ res_message (minimize ext ?objective (lhs f ! k)))))"
      unfolding Let_def by blast
    from r t(1) have "(fst t, fst (snd t)) = res_x (minimize ext ?objective (lhs f ! k))"
      by (auto split: if_splits)
    with m(1) k np_argmin_bound [OF k] show ?thesis
      unfolding Let_def l [symmetric] by auto
  qed
  from l a b c show ?thesis by blast
qed

lemma ex_lhs_entropy:
  "generate_latin_hypercube (ex_ext ok) 2
     = [(Finite (- 500), Finite (13 / 40)), (Finite 500, Finite (31 / 40))]"
  "generate_latin_hypercube (ex_ext ok) 3
     = [(Finite (- 500), Finite (31 / 40)), (Finite 500, Finite (13 / 40))]"
proof -
  have s: "LatinHypercube_random (ex_ext ok) 2 400
        = [(Finite (1 / 4), Finite (1 / 4)), (Finite (3 / 4), Finite (3 / 4))]"
    "LatinHypercube_random (ex_ext ok) 3 400
        = [(Finite (1 / 4), Finite (3 / 4)), (Finite (3 / 4), Finite (1 / 4))]"
    by (simp_all add: ex_ext_def)
  have q: "qmc_scale (ex_ext ok) sample lower upper
      = map (\<lambda>(u, v). (fl_add (fl_mul u (fl_sub (fst upper) (fst lower))) (fst lower),
                        fl_add (fl_mul v (fl_sub (snd upper) (snd lower))) (snd lower)))
           sample" for sample lower upper
    by (simp add: ex_ext_def)
  show "generate_latin_hypercube (ex_ext ok) 2
     = [(Finite (- 500), Finite (13 / 40)), (Finite 500, Finite (31 / 40))]"
    unfolding generate_latin_hypercube_def Let_def s q by (simp add: fl_sub_def)
  show "generate_latin_hypercube (ex_ext ok) 3
     = [(Finite (- 500), Finite (31 / 40)), (Finite 500, Finite (13 / 40))]"
    unfolding generate_latin_hypercube_def Let_def s q by (simp add: fl_sub_def)
qed

lemma ex_init_entropy:
  "LossConeFitter_init (ex_ext ok) 2 ex_cfg (Some ex_data) [Finite 0, Finite 0]
   = Inr (ex_fitter ex_data ex_umf ex_tbl)"
  "LossConeFitter_init (ex_ext ok) 3 ex_cfg (Some ex_data) [Finite 0, Finite 0]
   = Inr ex_fitter_odd"
  by (simp_all add: LossConeFitter_init_def ex_PitchAngle_init ex_lhs_entropy ex_fitter_def
      ex_fitter_odd_def ex_umf_def ex_tbl_def)

lemma ex_table_even:
  "fit_surface_potential (ex_ext True) ex_cfg (ex_fitter ex_data ex_umf ex_tbl)
   = Inr [[Finite (- 500), Finite (13 / 40), Finite 0, Finite 0], [NaN, NaN, NaN, Finite 1]]"
proof -
  have e: "er_data (ex_fitter ex_data ex_umf ex_tbl) = Some ex_data"
    by (simp add: ex_fitter_def)
  have n: "length ex_data = 2" "SWEEP_ROWS ex_cfg = 1"
    by (simp_all add: ex_data_def ex_cfg_def)
  have u: "[0 ..< 2] = [0, 1]" by (simp add: upt_rec)
  show ?thesis
    using ex_fit_chunk_0 [of True] ex_fit_chunk_1 [of True]
    by (simp add: fit_surface_potential_def e n u Let_def numeral_2_eq_2)
qed

text \<open>
  The example fitter, fitted with externals whose sampler now returns nothing: the
  table is the one obtained with the sampler that built the fitter.
\<close>

theorem fit_reuses_stored_sample_witness:
  "fit_surface_potential ex_ext_resample ex_cfg (ex_fitter ex_data ex_umf ex_tbl)
     = Inr [[Finite (- 500), Finite (13 / 40), Finite 0, Finite 0], [NaN, NaN, NaN, Finite 1]]
   \<and> lhs (ex_fitter ex_data ex_umf ex_tbl) = generate_latin_hypercube (ex_ext True) 0
   \<and> generate_latin_hypercube ex_ext_resample 0 = []"
proof -
  have tbl: "pitch_angles (pitch_angle (ex_fitter ex_data ex_umf ex_tbl)) = Some ex_tbl"
    by (simp add: ex_fitter_def ex_pitch_def)
  have s: "synth_losscone ex_ext_resample = synth_losscone (ex_ext True)"
    and m: "minimize ex_ext_resample = minimize (ex_ext True)"
    by (simp_all add: ex_ext_resample_def)
  have g: "generate_latin_hypercube ex_ext_resample 0 = []"
    by (simp add: generate_latin_hypercube_def ex_ext_resample_def ex_ext_def Let_def)
  from fit_reuses_stored_sample [OF ex_LossConeFitter_init [of True] tbl s m] ex_table_even g
  show ?thesis by simp
qed

lemma ex_odd_fields:
  "er_data ex_fitter_odd = Some ex_data"
  "pitch_angles (pitch_angle ex_fitter_odd) = Some ex_tbl"
  "lhs ex_fitter_odd = [(Finite (- 500), Finite (31 / 40)), (Finite 500, Finite (13 / 40))]"
  by (simp_all add: ex_fitter_odd_def ex_fitter_def ex_pitch_def)

lemma ex_odd_flux_rows:
  "get_normalized_flux ex_cfg ex_fitter_odd 0 0 = Inr [Finite 1, Finite 1]"
  "get_normalized_flux ex_cfg ex_fitter_odd 0 1 = Inr [NaN, NaN]"
  by (simp_all add: get_normalized_flux_def ex_odd_fields ex_data_def ex_row_def
      ex_tbl_def ex_cfg_def py_index_def bool_index_def py_max_def np_mean_def fl_sum_def
      fl_gt_def Let_def)

lemma ex_odd_build_norm2d:
  "build_norm2d ex_cfg ex_fitter_odd 0 = Inr [[Finite 1, Finite 1]]"
  "build_norm2d ex_cfg ex_fitter_odd 1 = Inr [[NaN, NaN]]"
proof -
  have u: "[0 ..< SWEEP_ROWS ex_cfg] = [0]" by (simp add: ex_cfg_def)
  show "build_norm2d ex_cfg ex_fitter_odd 0 = Inr [[Finite 1, Finite 1]]"
    by (simp add: build_norm2d_def ex_odd_fields u ex_odd_flux_rows vstack_def)
  show "build_norm2d ex_cfg ex_fitter_odd 1 = Inr [[NaN, NaN]]"
    by (simp add: build_norm2d_def ex_odd_fields u ex_odd_flux_rows vstack_def)
qed

lemma ex_odd_fit_chunks:
  "fit_chunk (ex_ext True) ex_cfg ex_fitter_odd 0
     = Inr (Finite (- 500), Finite (31 / 40), Finite 0)"
  "fit_chunk (ex_ext True) ex_cfg ex_fitter_odd 1 = Inr (NaN, NaN, NaN)"
proof -
  have sl: "py_slice (map energy ex_data) 0 1 = [Finite 10]"
    "py_slice ex_tbl 0 1 = [[Finite 0, Finite 180]]"
    by (simp_all add: py_slice_def slice_bound_def ex_data_def ex_row_def ex_tbl_def)
  have len: "length ex_data = 2" "length ex_tbl = 2" "SWEEP_ROWS ex_cfg = 1"
    by (simp_all add: ex_data_def ex_tbl_def ex_cfg_def)
  have mn: "minimize (ex_ext True) objective x0 =
      \<lparr>res_success = True, res_message = ''Optimization terminated successfully.'',
       res_x = x0, res_fun = objective x0\<rparr>" for objective x0
    by (simp add: ex_ext_def)
  show "fit_chunk (ex_ext True) ex_cfg ex_fitter_odd 0
     = Inr (Finite (- 500), Finite (31 / 40), Finite 0)"
    by (simp add: fit_chunk_def ex_odd_fields ex_odd_build_norm2d len sl np_argmin_def mn
        ex_chi2 fl_ge_def Let_def)
  show "fit_chunk (ex_ext True) ex_cfg ex_fitter_odd 1 = Inr (NaN, NaN, NaN)"
    by (simp add: fit_chunk_def ex_odd_fields ex_odd_build_norm2d)
qed

lemma ex_table_odd:
  "fit_surface_potential (ex_ext True) ex_cfg ex_fitter_odd
   = Inr [[Finite (- 500), Finite (31 / 40), Finite 0, Finite 0], [NaN, NaN, NaN, Finite 1]]"
proof -
  have n: "length ex_data = 2" "SWEEP_ROWS ex_cfg = 1"
    by (simp_all add: ex_data_def ex_cfg_def)
  have u: "[0 ..< 2] = [0, 1]" by (simp add: upt_rec)
  show ?thesis
    using ex_odd_fit_chunks
    by (simp add: fit_surface_potential_def ex_odd_fields n u Let_def numeral_2_eq_2)
qed

text \<open>
  Claim C9 as stated (two runs on identical inputs give identical tables) fails when the
  unseeded sampler pairs the cells differently in the two runs: with the same data,
  polar angles, model and minimiser, the entropies 0 and 3 give the start points
  (-500, 0.325) and (-500, 0.775), and the two tables differ in the first row.
\<close>

theorem fit_unseeded_sample_counterexample:
  "LossConeFitter_init (ex_ext True) 0 ex_cfg (Some ex_data) [Finite 0, Finite 0]
     = Inr (ex_fitter ex_data ex_umf ex_tbl)
   \<and> LossConeFitter_init (ex_ext True) 3 ex_cfg (Some ex_data) [Finite 0, Finite 0]
     = Inr ex_fitter_odd
   \<and> fit_surface_potential (ex_ext True) ex_cfg (ex_fitter ex_data ex_umf ex_tbl)
     = Inr [[Finite (- 500), Finite (13 / 40), Finite 0, Finite 0], [NaN, NaN, NaN, Finite 1]]
   \<and> fit_surface_potential (ex_ext True) ex_cfg ex_fitter_odd
     = Inr [[Finite (- 500), Finite (31 / 40), Finite 0, Finite 0], [NaN, NaN, NaN, Finite 1]]
   \<and> fit_surface_potential (ex_ext True) ex_cfg (ex_fitter ex_data ex_umf ex_tbl)
     \<noteq> fit_surface_potential (ex_ext True) ex_cfg ex_fitter_odd"
  by (simp add: ex_LossConeFitter_init ex_init_entropy ex_table_even ex_table_odd)

end
